theory Spec2Isabelle
  imports Main "HOL-Library.Word"
begin

section \<open>JavaScript values used by the chat subsystem\<close>

text \<open>
  A JavaScript string is a sequence of UTF-16 code units; \<open>length\<close> counts code units
  and \<open>trim\<close> strips the ECMAScript white space and line terminator code units from both
  ends. Message content is modelled with that type. Identifiers (user ids, chat ids,
  socket ids, correlation ids), event names and the fixed texts of the source are
  \<open>string\<close>s. Dates are milliseconds since the epoch.
\<close>

type_synonym jsstring = "16 word list"

definition isWhiteSpace :: "16 word \<Rightarrow> bool" where
  "isWhiteSpace c \<longleftrightarrow>
     c = 0x0009 \<or> c = 0x000A \<or> c = 0x000B \<or> c = 0x000C \<or> c = 0x000D \<or> c = 0x0020 \<or>
     c = 0x00A0 \<or> c = 0x1680 \<or> (0x2000 \<le> c \<and> c \<le> 0x200A) \<or> c = 0x2028 \<or>
     c = 0x2029 \<or> c = 0x202F \<or> c = 0x205F \<or> c = 0x3000 \<or> c = 0xFEFF"

definition trim :: "jsstring \<Rightarrow> jsstring" where
  "trim s = rev (dropWhile isWhiteSpace (rev (dropWhile isWhiteSpace s)))"

text \<open>Truthiness of an optional string: \<open>undefined\<close> and the empty string are falsy.\<close>

fun truthy :: "string option \<Rightarrow> bool" where
  "truthy None = False"
| "truthy (Some s) = (s \<noteq> [])"

text \<open>\<open>Number.prototype.toString\<close> on a non-negative integer: its decimal digits.\<close>

definition digit :: "nat \<Rightarrow> char" where
  "digit d = char_of (48 + d)"

function toString :: "nat \<Rightarrow> string" where
  "toString n = (if n < 10 then [digit n] else toString (n div 10) @ [digit (n mod 10)])"
  by pat_completeness auto
termination
  by (relation "measure id") auto

declare toString.simps [simp del]


section \<open>Client session controller (the chat page)\<close>

text \<open>
  The objects of the page's \<open>messages\<close> state and of the \<open>new_message\<close> payload have the
  same shape; a field the object does not carry is \<open>None\<close>.
\<close>

record sender_summary =
  s_id :: string
  s_name :: string
  s_role :: string

record message =
  m_id :: "nat option"
  m_tempId :: "string option"
  m_chatId :: string
  m_content :: jsstring
  m_messageType :: "string option"
  m_sender :: sender_summary
  m_timestamp :: int
  m_isRead :: "bool option"
  m_status :: "string option"

text \<open>The payload of \<open>message_sent\<close>.\<close>

record confirmation =
  c_success :: bool
  c_messageId :: nat
  c_tempId :: "string option"
  c_timestamp :: int

text \<open>The payload of \<open>send_message\<close>.\<close>

record send_request =
  r_chatId :: string
  r_content :: "jsstring option"
  r_messageType :: "string option"
  r_tempId :: "string option"

record chat_page =
  messages :: "message list"
  newMessage :: jsstring
  isSending :: bool

text \<open>\<open>useSocketEvent('new_message', ...)\<close>, for the page opened on \<open>chatId\<close>.\<close>

definition messageExists :: "message \<Rightarrow> message list \<Rightarrow> bool" where
  "messageExists messageData prev =
     list_ex (\<lambda>msg. m_id msg = m_id messageData \<or>
                    (truthy (m_tempId msg) \<and> m_tempId msg = m_tempId messageData)) prev"

definition on_new_message :: "string \<Rightarrow> message \<Rightarrow> chat_page \<Rightarrow> chat_page" where
  "on_new_message chatId messageData p =
     (if m_chatId messageData = chatId then
        p\<lparr>messages :=
            (if messageExists messageData (messages p) then
               map (\<lambda>msg. if m_tempId msg = m_tempId messageData
                          then messageData\<lparr>m_status := Some ''sent''\<rparr> else msg) (messages p)
             else messages p @ [messageData\<lparr>m_status := Some ''received''\<rparr>])\<rparr>
      else p)"

text \<open>\<open>useSocketEvent('message_sent', ...)\<close>.\<close>

definition on_message_sent :: "confirmation \<Rightarrow> chat_page \<Rightarrow> chat_page" where
  "on_message_sent data p =
     (let p1 = p\<lparr>isSending := False\<rparr> in
      if truthy (c_tempId data) then
        p1\<lparr>messages :=
             map (\<lambda>msg. if m_tempId msg = c_tempId data
                        then msg\<lparr>m_id := Some (c_messageId data), m_status := Some ''sent'',
                                 m_timestamp := c_timestamp data\<rparr>
                        else msg) (messages p1)\<rparr>
      else p1)"

text \<open>\<open>useSocketEvent('error', ...)\<close>.\<close>

definition on_error :: "chat_page \<Rightarrow> chat_page" where
  "on_error p =
     p\<lparr>isSending := False,
       messages := filter (\<lambda>msg. m_status msg \<noteq> Some ''sending'') (messages p)\<rparr>"

text \<open>
  \<open>sendMessage\<close>: with a connected socket, the optimistic entry is appended and the
  \<open>send_message\<close> request is returned for emission; \<open>now\<close> is \<open>Date.now()\<close>.
\<close>

definition optimistic :: "nat \<Rightarrow> string \<Rightarrow> sender_summary \<Rightarrow> jsstring \<Rightarrow> message" where
  "optimistic now chatId user draft =
     \<lparr>m_id = None, m_tempId = Some (toString now), m_chatId = chatId, m_content = trim draft,
      m_messageType = None, m_sender = user, m_timestamp = int now, m_isRead = None,
      m_status = Some ''sending''\<rparr>"

definition sendMessage ::
  "nat \<Rightarrow> string \<Rightarrow> sender_summary \<Rightarrow> bool \<Rightarrow> chat_page \<Rightarrow> chat_page \<times> send_request option" where
  "sendMessage now chatId user connected p =
     (if trim (newMessage p) = [] \<or> isSending p \<or> \<not> connected then (p, None)
      else
        (p\<lparr>messages := messages p @ [optimistic now chatId user (newMessage p)],
           newMessage := [], isSending := True\<rparr>,
         Some \<lparr>r_chatId = chatId, r_content = Some (trim (newMessage p)),
               r_messageType = None, r_tempId = Some (toString now)\<rparr>))"

text \<open>The five-second timer that \<open>sendMessage\<close> starts: the sending flag is cleared, the
  entry stays.\<close>

definition sendTimeout :: "chat_page \<Rightarrow> chat_page" where
  "sendTimeout p = p\<lparr>isSending := False\<rparr>"

text \<open>The number of displayed entries that belong to the send with correlation id \<open>X\<close>.\<close>

definition shown :: "string \<Rightarrow> chat_page \<Rightarrow> nat" where
  "shown X p = length (filter (\<lambda>msg. m_tempId msg = Some X) (messages p))"


section \<open>The document store\<close>

text \<open>
  The collections of users and chats, as the controllers and the gateway use them.
  A collection is the list of its documents in insertion order; \<open>findOne\<close> returns the
  first match and \<open>create\<close> appends. Ids of stored messages come from a counter of the
  store, and a message is unread when it is stored.
\<close>

record msg_request =
  mr_toUserId :: string
  mr_timestamp :: int

record user =
  u_id :: string
  u_name :: string
  u_role :: string
  u_isActive :: bool
  u_verificationStatus :: "string option"
  u_messageRequests :: "msg_request list"

record participant =
  p_user :: string
  p_role :: string

record stored_message =
  sm_id :: nat
  sm_sender :: string
  sm_content :: jsstring
  sm_messageType :: string
  sm_timestamp :: int
  sm_isRead :: bool

record last_message =
  lm_sender :: string
  lm_content :: jsstring
  lm_timestamp :: int

record chat =
  ch_chatId :: string
  ch_participants :: "participant list"
  ch_chatType :: string
  ch_status :: string
  ch_caseRef :: "(string \<times> string) option"
  ch_messages :: "stored_message list"
  ch_lastMessage :: "last_message option"

record db =
  users :: "user list"
  chats :: "chat list"
  nextId :: nat

text \<open>
  An awaited store call may reject. \<open>flt op = Some msg\<close> says that the call \<open>op\<close> of the
  handler being run rejects with \<open>Error(msg)\<close>; the handler's \<open>catch\<close> block then runs.
\<close>

datatype store_op =
    FindLawyer | FindCitizen | SaveCitizen | FindChat | CreateChat | SaveChat
  | ValidateAccess | SaveMessage | CreateRoom | RateStore

type_synonym faults = "store_op \<Rightarrow> string option"

definition findChat :: "db \<Rightarrow> string \<Rightarrow> chat option" where
  "findChat d chatId = find (\<lambda>c. ch_chatId c = chatId) (chats d)"

text \<open>\<open>chat.save()\<close> of a document obtained by \<open>findChat\<close>: the first document with that
  chat id is replaced.\<close>

fun replaceFirst :: "('a \<Rightarrow> bool) \<Rightarrow> 'a \<Rightarrow> 'a list \<Rightarrow> 'a list" where
  "replaceFirst P y [] = []"
| "replaceFirst P y (x # xs) = (if P x then y # xs else x # replaceFirst P y xs)"

definition saveChat :: "db \<Rightarrow> chat \<Rightarrow> db" where
  "saveChat d c = d\<lparr>chats := replaceFirst (\<lambda>x. ch_chatId x = ch_chatId c) c (chats d)\<rparr>"

text \<open>A fixed text of the source as a JavaScript string.\<close>

definition js :: "string \<Rightarrow> jsstring" where
  "js s = map (\<lambda>c. of_nat (of_char c)) s"


text \<open>
  Identifiers of stored documents are ObjectIds, read back as 24 hexadecimal digits in
  lower case. Where a string is stored in an ObjectId field or used to query one, Mongoose
  casts it: a string of 24 hexadecimal digits becomes the id it spells, whatever the case
  of its letters, and any other string is refused with a cast error.
\<close>

definition isHexDigit :: "char \<Rightarrow> bool" where
  "isHexDigit c \<longleftrightarrow> c \<in> set ''0123456789abcdefABCDEF''"

definition lowerHex :: "char \<Rightarrow> char" where
  "lowerHex c =
     (if c = CHR ''A'' then CHR ''a'' else if c = CHR ''B'' then CHR ''b''
      else if c = CHR ''C'' then CHR ''c'' else if c = CHR ''D'' then CHR ''d''
      else if c = CHR ''E'' then CHR ''e'' else if c = CHR ''F'' then CHR ''f'' else c)"

definition castObjectId :: "string \<Rightarrow> string option" where
  "castObjectId s =
     (if length s = 24 \<and> list_all isHexDigit s then Some (map lowerHex s) else None)"


section \<open>The user model: message-request quota\<close>

text \<open>
  \<open>canSendMessageRequest\<close> and \<open>addMessageRequest\<close> of the user schema; \<open>now\<close> is
  \<open>Date.now()\<close>. The field \<open>toUserId\<close> of a stored request is an ObjectId: the pushed
  string is cast, and a string that spells no id makes the document unsavable (\<open>None\<close>).
  \<open>canSendMessageRequest\<close> compares the string form of the stored id with the string it
  is given, as it is.
\<close>

definition oneHourAgo :: "int \<Rightarrow> int" where
  "oneHourAgo now = now - 60 * 60 * 1000"

definition canSendMessageRequest :: "int \<Rightarrow> user \<Rightarrow> string \<Rightarrow> bool" where
  "canSendMessageRequest now this toUserId =
     (let recentRequests =
            filter (\<lambda>req. mr_toUserId req = toUserId \<and> mr_timestamp req > oneHourAgo now)
              (u_messageRequests this)
      in length recentRequests < 2)"

definition addMessageRequest :: "int \<Rightarrow> user \<Rightarrow> string \<Rightarrow> user option" where
  "addMessageRequest now this toUserId =
     (case castObjectId toUserId of
        None \<Rightarrow> None
      | Some oid \<Rightarrow>
          Some (this\<lparr>u_messageRequests :=
                  filter (\<lambda>req. mr_timestamp req > oneHourAgo now)
                    (u_messageRequests this @ [\<lparr>mr_toUserId = oid, mr_timestamp = now\<rparr>])\<rparr>))"


section \<open>Direct-chat requests (citizen controller)\<close>

text \<open>
  The default \<open>Array.prototype.sort\<close> orders the string forms of the elements by code
  units and is stable; \<open>join\<close> puts the separator between the elements.
\<close>

fun js_less :: "string \<Rightarrow> string \<Rightarrow> bool" where
  "js_less [] [] = False"
| "js_less [] (y # ys) = True"
| "js_less (x # xs) [] = False"
| "js_less (x # xs) (y # ys) =
     (if (of_char x :: nat) < of_char y then True
      else if (of_char y :: nat) < of_char x then False
      else js_less xs ys)"

fun jsInsert :: "string \<Rightarrow> string list \<Rightarrow> string list" where
  "jsInsert x [] = [x]"
| "jsInsert x (y # ys) = (if js_less x y then x # y # ys else y # jsInsert x ys)"

definition jsSort :: "string list \<Rightarrow> string list" where
  "jsSort xs = foldl (\<lambda>acc x. jsInsert x acc) [] xs"

fun join :: "string \<Rightarrow> string list \<Rightarrow> string" where
  "join sep [] = []"
| "join sep [x] = x"
| "join sep (x # y # ys) = x @ sep @ join sep (y # ys)"

definition directChatId :: "string \<Rightarrow> string \<Rightarrow> string" where
  "directChatId userId lawyerId = ''direct_'' @ join ''_'' (jsSort [userId, lawyerId])"

record response =
  res_status :: nat
  res_success :: bool
  res_message :: string
  res_chatId :: "string option"

definition defaultRequestText :: jsstring where
  "defaultRequestText = js ''Hi, I would like to connect with you for legal assistance.''"

text \<open>\<open>message || default\<close>: \<open>undefined\<close> and the empty string are falsy.\<close>

definition orDefault :: "jsstring option \<Rightarrow> jsstring \<Rightarrow> jsstring" where
  "orDefault message dflt = (case message of None \<Rightarrow> dflt | Some m \<Rightarrow> if m = [] then dflt else m)"

text \<open>The server-to-client events. A delivery names the room an event is emitted to
  (controllers) or the sockets that receive it (gateway).\<close>

datatype json = JNull | JBool bool | JNum int | JStr string | JText jsstring
  | JObj "(string \<times> json) list"

datatype server_event =
    ErrorEvent string "string option"
  | ChatJoined string bool
  | MessagesRead string string "nat list option"
  | NewMessage message
  | MessageSent confirmation
  | UserTyping string string
  | UserStopTyping string
  | UserStatusUpdate string string
  | DirectMessageRequest string jsstring sender_summary int
  | Notification string json

text \<open>
  \<open>sendDirectMessageRequest\<close>: \<open>reqUser\<close> is the authenticated \<open>req.user\<close>, \<open>lawyerId\<close> the
  route parameter and \<open>message\<close> the optional text of the body. The result is the new
  store, the HTTP response and the events emitted to personal rooms. The lawyer is looked
  up by the id that the parameter is cast to, and the participants of a new chat are
  stored as ids; the chat key, the quota check and the name of the notified room are
  built from the parameter as it was received.
\<close>

definition failedRequest :: response where
  "failedRequest = \<lparr>res_status = 500, res_success = False,
     res_message = ''Failed to send message request'', res_chatId = None\<rparr>"

definition sendDirectMessageRequest ::
  "faults \<Rightarrow> int \<Rightarrow> sender_summary \<Rightarrow> string \<Rightarrow> jsstring option \<Rightarrow> db
     \<Rightarrow> db \<times> response \<times> (string \<times> server_event) list" where
  "sendDirectMessageRequest flt now reqUser lawyerId message d =
     (if flt FindLawyer \<noteq> None then (d, failedRequest, [])
      else case castObjectId lawyerId of
        None \<Rightarrow> (d, failedRequest, [])
      | Some lawyerOid \<Rightarrow>
       (case find (\<lambda>u. u_id u = lawyerOid \<and> u_role u = ''lawyer'' \<and> u_isActive u \<and>
                          u_verificationStatus u = Some ''verified'') (users d) of
        None \<Rightarrow>
          (d, \<lparr>res_status = 404, res_success = False,
               res_message = ''Lawyer not found or not verified'', res_chatId = None\<rparr>, [])
      | Some lawyer \<Rightarrow>
          if flt FindCitizen \<noteq> None then (d, failedRequest, [])
          else (case find (\<lambda>u. u_id u = s_id reqUser) (users d) of
            None \<Rightarrow> (d, failedRequest, [])
          | Some citizen \<Rightarrow>
              if \<not> canSendMessageRequest now citizen lawyerId then
                (d, \<lparr>res_status = 429, res_success = False,
                     res_message =
                       ''You can only send 2 message requests per hour to the same lawyer'',
                     res_chatId = None\<rparr>, [])
              else (case addMessageRequest now citizen lawyerId of
                None \<Rightarrow> (d, failedRequest, [])
              | Some citizen' \<Rightarrow>
                if flt SaveCitizen \<noteq> None then (d, failedRequest, [])
                else
                let d1 = d\<lparr>users := replaceFirst (\<lambda>u. u_id u = u_id citizen') citizen' (users d)\<rparr>;
                    chatId = directChatId (s_id reqUser) lawyerId;
                    greeting = orDefault message defaultRequestText;
                    notify = [(''user_'' @ lawyerId,
                               DirectMessageRequest chatId greeting reqUser now)];
                    ok = \<lparr>res_status = 200, res_success = True,
                          res_message = ''Message request sent successfully'',
                          res_chatId = Some chatId\<rparr>
                in
                if flt FindChat \<noteq> None then (d1, failedRequest, [])
                else (case findChat d1 chatId of
                  Some chat \<Rightarrow> (d1, ok, notify)
                | None \<Rightarrow>
                    if flt CreateChat \<noteq> None then (d1, failedRequest, [])
                    else
                      let created = \<lparr>ch_chatId = chatId,
                            ch_participants = [\<lparr>p_user = s_id reqUser, p_role = ''citizen''\<rparr>,
                                               \<lparr>p_user = lawyerOid, p_role = ''lawyer''\<rparr>],
                            ch_chatType = ''direct'', ch_status = ''pending'', ch_caseRef = None,
                            ch_messages = [], ch_lastMessage = None\<rparr>;
                          d2 = d1\<lparr>chats := chats d1 @ [created]\<rparr>
                      in
                      if flt SaveChat \<noteq> None then (d2, failedRequest, [])
                      else
                        let filled = created\<lparr>
                              ch_messages := [\<lparr>sm_id = nextId d1, sm_sender = s_id reqUser,
                                 sm_content = greeting, sm_messageType = ''text'',
                                 sm_timestamp = now, sm_isRead = False\<rparr>],
                              ch_lastMessage := Some \<lparr>lm_sender = s_id reqUser,
                                 lm_content = greeting, lm_timestamp = now\<rparr>\<rparr>
                        in (d1\<lparr>chats := chats d1 @ [filled], nextId := Suc (nextId d1)\<rparr>,
                            ok, notify))))))"

section \<open>The realtime gateway\<close>

subsection \<open>Helpers of the gateway that live outside the gateway module\<close>

text \<open>
  Modelled from the spec: \<open>validateChatAccess\<close> of \<open>utils/socketHelpers.js\<close>, which is
  imported by the gateway but is not among the sources. The guard looks the room up by key
  and checks that the identity appears in its participant set; a room that does not exist
  gives \<open>false\<close>.
\<close>

definition validateChatAccess :: "db \<Rightarrow> string \<Rightarrow> string \<Rightarrow> bool" where
  "validateChatAccess d chatId uid =
     (case findChat d chatId of
        None \<Rightarrow> False
      | Some c \<Rightarrow> uid \<in> set (map p_user (ch_participants c)))"

text \<open>
  Modelled from the spec: \<open>checkMessageRateLimit\<close> of \<open>utils/socketHelpers.js\<close>, not among
  the sources. A sliding window per sender: a call prunes the sender's timestamps older
  than the window; it is allowed when fewer than the limit remain, and an allowed call
  records its timestamp. When the limiter's own state is unavailable the call is allowed
  (fail open) and nothing is recorded.
\<close>

record rate_limiter =
  rl_limit :: nat
  rl_window :: int
  rl_sent :: "string \<Rightarrow> int list"

definition checkMessageRateLimit ::
  "faults \<Rightarrow> int \<Rightarrow> string \<Rightarrow> rate_limiter \<Rightarrow> bool \<times> rate_limiter" where
  "checkMessageRateLimit flt now uid rl =
     (if flt RateStore \<noteq> None then (True, rl)
      else
        let recent = filter (\<lambda>t. now - rl_window rl < t) (rl_sent rl uid) in
        if length recent < rl_limit rl
        then (True, rl\<lparr>rl_sent := (rl_sent rl)(uid := recent @ [now])\<rparr>)
        else (False, rl\<lparr>rl_sent := (rl_sent rl)(uid := recent)\<rparr>))"

text \<open>
  Modelled from the spec: \<open>saveMessageToDatabase\<close> of \<open>utils/socketHelpers.js\<close>, not among
  the sources. The store appends a message with the given sender, content and type to the
  room, assigns its id and creation time, and refreshes the room's last-message summary;
  it rejects when the room does not exist.
\<close>

definition saveMessageToDatabase ::
  "int \<Rightarrow> db \<Rightarrow> string \<Rightarrow> string \<Rightarrow> jsstring \<Rightarrow> string \<Rightarrow> string + stored_message \<times> db" where
  "saveMessageToDatabase now d chatId uid content messageType =
     (case findChat d chatId of
        None \<Rightarrow> Inl ''Chat not found''
      | Some c \<Rightarrow>
          let saved = \<lparr>sm_id = nextId d, sm_sender = uid, sm_content = content,
                       sm_messageType = messageType, sm_timestamp = now, sm_isRead = False\<rparr>;
              c' = c\<lparr>ch_messages := ch_messages c @ [saved],
                     ch_lastMessage := Some \<lparr>lm_sender = uid, lm_content = content,
                                             lm_timestamp = now\<rparr>\<rparr>
          in Inr (saved, (saveChat d c')\<lparr>nextId := Suc (nextId d)\<rparr>))"

text \<open>
  Modelled from the spec: \<open>markAsRead\<close> of the chat model, not among the sources. The
  messages of the room that are unread for the user (sent by someone else and not yet
  read) are marked read; with an explicit id list only the listed ones.
\<close>

definition markAsRead :: "chat \<Rightarrow> string \<Rightarrow> nat list option \<Rightarrow> chat" where
  "markAsRead c uid messageIds =
     c\<lparr>ch_messages :=
         map (\<lambda>m. if sm_sender m \<noteq> uid \<and> \<not> sm_isRead m \<and>
                     (case messageIds of None \<Rightarrow> True | Some ids \<Rightarrow> sm_id m \<in> set ids)
                  then m\<lparr>sm_isRead := True\<rparr> else m) (ch_messages c)\<rparr>"

text \<open>
  Modelled from the spec: \<open>createChatRoom\<close> of \<open>utils/socketHelpers.js\<close>, not among the
  sources. Creation is idempotent by room key: the key of a direct chat is derived from
  the sorted participant identities and an existing room is returned unchanged; a
  case-bound chat gets a generated key, carries its case reference and starts active.
\<close>

definition createChatRoom ::
  "db \<Rightarrow> participant list \<Rightarrow> string \<Rightarrow> (string \<times> string) option \<Rightarrow> chat \<times> db" where
  "createChatRoom d participants chatType caseRef =
     (let direct = (chatType = ''direct'');
          chatId = (if direct then ''direct_'' @ join ''_'' (jsSort (map p_user participants))
                    else chatType @ ''_'' @ toString (nextId d))
      in case (if direct then findChat d chatId else None) of
           Some c \<Rightarrow> (c, d)
         | None \<Rightarrow>
             let c = \<lparr>ch_chatId = chatId, ch_participants = participants,
                      ch_chatType = chatType,
                      ch_status = (if direct then ''pending'' else ''active''),
                      ch_caseRef = caseRef, ch_messages = [], ch_lastMessage = None\<rparr>
             in (c, d\<lparr>chats := chats d @ [c], nextId := Suc (nextId d)\<rparr>))"


subsection \<open>Connections, registries and emission\<close>

text \<open>
  The properties the authentication middleware puts on a socket, the two process-local
  registries of the gateway, and the rooms of the Socket.IO adapter (\<open>socket.join\<close>,
  \<open>socket.leave\<close>). A delivery is an event together with the sockets that receive it:
  \<open>socket.emit\<close> reaches the socket itself, \<open>io.to(room)\<close> every socket in the room,
  \<open>socket.to(room)\<close> every socket in the room but the emitting one, and
  \<open>socket.broadcast\<close> every connected socket but the emitting one.
\<close>

record socket =
  sock_id :: string
  sock_userId :: string
  sock_userRole :: string
  sock_userName :: string

record active_user =
  au_userId :: string
  au_role :: string
  au_name :: string
  au_socketId :: string
  au_status :: "string option"

record gateway =
  activeUsers :: "string \<rightharpoonup> active_user"
  activeChatRooms :: "string \<rightharpoonup> string set"
  rooms :: "string \<Rightarrow> string set"
  store :: db
  limiter :: rate_limiter
  development :: bool

type_synonym delivery = "string set \<times> server_event"

definition socket_emit :: "socket \<Rightarrow> server_event \<Rightarrow> delivery" where
  "socket_emit socket ev = ({sock_id socket}, ev)"

definition io_to :: "gateway \<Rightarrow> string \<Rightarrow> server_event \<Rightarrow> delivery" where
  "io_to g room ev = (rooms g room, ev)"

definition socket_to :: "gateway \<Rightarrow> socket \<Rightarrow> string \<Rightarrow> server_event \<Rightarrow> delivery" where
  "socket_to g socket room ev = (rooms g room - {sock_id socket}, ev)"

definition socket_broadcast :: "gateway \<Rightarrow> socket \<Rightarrow> server_event \<Rightarrow> delivery" where
  "socket_broadcast g socket ev = (dom (activeUsers g) - {sock_id socket}, ev)"

definition sender_of :: "socket \<Rightarrow> sender_summary" where
  "sender_of socket =
     \<lparr>s_id = sock_userId socket, s_name = sock_userName socket, s_role = sock_userRole socket\<rparr>"

text \<open>\<open>io.on("connection", ...)\<close>, before the handlers are registered.\<close>

definition connection :: "socket \<Rightarrow> gateway \<Rightarrow> gateway" where
  "connection socket g =
     g\<lparr>activeUsers := (activeUsers g)(sock_id socket \<mapsto>
           \<lparr>au_userId = sock_userId socket, au_role = sock_userRole socket,
            au_name = sock_userName socket, au_socketId = sock_id socket, au_status = None\<rparr>),
       rooms := (rooms g)(''user_'' @ sock_userId socket :=
                    insert (sock_id socket) (rooms g (''user_'' @ sock_userId socket)))\<rparr>"


subsection \<open>Room handlers\<close>

text \<open>
  An asynchronous handler is given here as it runs when no other handler runs during its
  awaits. The suspension of \<open>join_chat\<close>, the one handler that writes a registry after an
  await, is taken apart further below.
\<close>

definition join_chat :: "faults \<Rightarrow> socket \<Rightarrow> string \<Rightarrow> gateway \<Rightarrow> gateway \<times> delivery list" where
  "join_chat flt socket chatId g =
     (if flt ValidateAccess \<noteq> None then
        (g, [socket_emit socket (ErrorEvent ''Failed to join chat'' None)])
      else if \<not> validateChatAccess (store g) chatId (sock_userId socket) then
        (g, [socket_emit socket (ErrorEvent ''Access denied to chat room'' None)])
      else
        let g1 = g\<lparr>rooms := (rooms g)(chatId := insert (sock_id socket) (rooms g chatId)),
                   activeChatRooms := (activeChatRooms g)(chatId \<mapsto>
                      insert (sock_id socket)
                        (case activeChatRooms g chatId of None \<Rightarrow> {} | Some userSet \<Rightarrow> userSet))\<rparr>
        in
        if flt FindChat \<noteq> None then
          (g1, [socket_emit socket (ErrorEvent ''Failed to join chat'' None)])
        else case findChat (store g1) chatId of
          None \<Rightarrow> (g1, [socket_emit socket (ChatJoined chatId True)])
        | Some chat \<Rightarrow>
            if flt SaveChat \<noteq> None then
              (g1, [socket_emit socket (ErrorEvent ''Failed to join chat'' None)])
            else
              let g2 = g1\<lparr>store := saveChat (store g1) (markAsRead chat (sock_userId socket) None)\<rparr>
              in (g2, [socket_to g2 socket chatId (MessagesRead chatId (sock_userId socket) None),
                       socket_emit socket (ChatJoined chatId True)]))"

definition leave_chat :: "socket \<Rightarrow> string \<Rightarrow> gateway \<Rightarrow> gateway \<times> delivery list" where
  "leave_chat socket chatId g =
     (g\<lparr>rooms := (rooms g)(chatId := rooms g chatId - {sock_id socket}),
        activeChatRooms :=
          (case activeChatRooms g chatId of
             None \<Rightarrow> activeChatRooms g
           | Some userSet \<Rightarrow>
               if userSet - {sock_id socket} = {} then (activeChatRooms g)(chatId := None)
               else (activeChatRooms g)(chatId \<mapsto> userSet - {sock_id socket}))\<rparr>, [])"

text \<open>The \<open>catch\<close> block of \<open>send_message\<close>: the details are sent in development only.\<close>

definition sendFailed :: "gateway \<Rightarrow> socket \<Rightarrow> string \<Rightarrow> delivery" where
  "sendFailed g socket msg =
     socket_emit socket
       (ErrorEvent ''Failed to send message'' (if development g then Some msg else None))"

definition send_message ::
  "faults \<Rightarrow> int \<Rightarrow> socket \<Rightarrow> send_request \<Rightarrow> gateway \<Rightarrow> gateway \<times> delivery list" where
  "send_message flt now socket messageData g =
     (let chatId = r_chatId messageData;
          messageType = (case r_messageType messageData of None \<Rightarrow> ''text'' | Some t \<Rightarrow> t)
      in case r_content messageData of
        None \<Rightarrow> (g, [socket_emit socket (ErrorEvent ''Message content cannot be empty'' None)])
      | Some content \<Rightarrow>
          if content = [] \<or> length (trim content) = 0 then
            (g, [socket_emit socket (ErrorEvent ''Message content cannot be empty'' None)])
          else if length content > 1000 then
            (g, [socket_emit socket
                   (ErrorEvent ''Message too long. Maximum 1000 characters.'' None)])
          else
            let (allowed, rl) = checkMessageRateLimit flt now (sock_userId socket) (limiter g);
                g1 = g\<lparr>limiter := rl\<rparr>
            in
            if \<not> allowed then
              (g1, [socket_emit socket
                      (ErrorEvent ''Message rate limit exceeded. Please slow down.'' None)])
            else (case flt ValidateAccess of
              Some e \<Rightarrow> (g1, [sendFailed g1 socket e])
            | None \<Rightarrow>
                if \<not> validateChatAccess (store g1) chatId (sock_userId socket) then
                  (g1, [socket_emit socket (ErrorEvent ''Chat not found or access denied'' None)])
                else (case (case flt SaveMessage of
                             Some e \<Rightarrow> Inl e
                           | None \<Rightarrow> saveMessageToDatabase now (store g1) chatId
                                       (sock_userId socket) content messageType) of
                  Inl e \<Rightarrow> (g1, [sendFailed g1 socket e])
                | Inr (savedMessage, d') \<Rightarrow>
                    let g2 = g1\<lparr>store := d'\<rparr>;
                        messageToSend =
                          \<lparr>m_id = Some (sm_id savedMessage), m_tempId = None, m_chatId = chatId,
                           m_content = sm_content savedMessage,
                           m_messageType = Some (sm_messageType savedMessage),
                           m_sender = sender_of socket,
                           m_timestamp = sm_timestamp savedMessage,
                           m_isRead = Some (sm_isRead savedMessage), m_status = None\<rparr>
                    in (g2, [io_to g2 chatId (NewMessage messageToSend),
                             socket_emit socket
                               (MessageSent \<lparr>c_success = True, c_messageId = sm_id savedMessage,
                                  c_tempId = None, c_timestamp = sm_timestamp savedMessage\<rparr>)]))))"

text \<open>The reasons of the error events of \<open>send_message\<close>.\<close>

definition sendReasons :: "string set" where
  "sendReasons = {''Message content cannot be empty'',
     ''Message too long. Maximum 1000 characters.'',
     ''Message rate limit exceeded. Please slow down.'',
     ''Chat not found or access denied'', ''Failed to send message''}"

definition mark_messages_read ::
  "faults \<Rightarrow> socket \<Rightarrow> string \<Rightarrow> nat list option \<Rightarrow> gateway \<Rightarrow> gateway \<times> delivery list" where
  "mark_messages_read flt socket chatId messageIds g =
     (if flt ValidateAccess \<noteq> None then (g, [])
      else if \<not> validateChatAccess (store g) chatId (sock_userId socket) then (g, [])
      else if flt FindChat \<noteq> None then (g, [])
      else case findChat (store g) chatId of
        None \<Rightarrow> (g, [])
      | Some chat \<Rightarrow>
          if flt SaveChat \<noteq> None then (g, [])
          else
            let g1 = g\<lparr>store := saveChat (store g) (markAsRead chat (sock_userId socket) messageIds)\<rparr>
            in (g1, [socket_to g1 socket chatId
                       (MessagesRead chatId (sock_userId socket) messageIds)]))"

definition typing_start :: "socket \<Rightarrow> string \<Rightarrow> gateway \<Rightarrow> gateway \<times> delivery list" where
  "typing_start socket chatId g =
     (g, [socket_to g socket chatId (UserTyping (sock_userId socket) (sock_userName socket))])"

definition typing_stop :: "socket \<Rightarrow> string \<Rightarrow> gateway \<Rightarrow> gateway \<times> delivery list" where
  "typing_stop socket chatId g =
     (g, [socket_to g socket chatId (UserStopTyping (sock_userId socket))])"

definition update_status :: "socket \<Rightarrow> string \<Rightarrow> gateway \<Rightarrow> gateway \<times> delivery list" where
  "update_status socket status g =
     (case activeUsers g (sock_id socket) of
        None \<Rightarrow> (g, [])
      | Some user \<Rightarrow>
          (g\<lparr>activeUsers := (activeUsers g)(sock_id socket \<mapsto> user\<lparr>au_status := Some status\<rparr>)\<rparr>,
           [socket_broadcast g socket (UserStatusUpdate (sock_userId socket) status)]))"

text \<open>
  \<open>disconnect\<close>: the adapter has taken the socket out of every room; the handler removes
  it from both registries, dropping each registry entry whose set becomes empty.
\<close>

definition disconnect :: "socket \<Rightarrow> gateway \<Rightarrow> gateway \<times> delivery list" where
  "disconnect socket g =
     (let g1 = g\<lparr>rooms := (\<lambda>room. rooms g room - {sock_id socket}),
                 activeUsers := (activeUsers g)(sock_id socket := None),
                 activeChatRooms :=
                   (\<lambda>chatId. case activeChatRooms g chatId of
                       None \<Rightarrow> None
                     | Some userSet \<Rightarrow>
                         if userSet - {sock_id socket} = {} then None
                         else Some (userSet - {sock_id socket}))\<rparr>
      in (g1, [socket_broadcast g1 socket (UserStatusUpdate (sock_userId socket) ''offline'')]))"


subsection \<open>Notification handlers\<close>

text \<open>
  The payloads of these events are opaque objects passed through by the gateway.
  \<open>{...obj, k: v}\<close> copies the fields of \<open>obj\<close> and sets \<open>k\<close>.
\<close>

fun fieldsOf :: "json \<Rightarrow> (string \<times> json) list" where
  "fieldsOf (JObj fs) = fs"
| "fieldsOf _ = []"

fun setField :: "string \<Rightarrow> json \<Rightarrow> (string \<times> json) list \<Rightarrow> (string \<times> json) list" where
  "setField k v [] = [(k, v)]"
| "setField k v ((k', v') # fs) = (if k' = k then (k, v) # fs else (k', v') # setField k v fs)"

definition fromJson :: "socket \<Rightarrow> json" where
  "fromJson socket =
     JObj [(''_id'', JStr (sock_userId socket)), (''name'', JStr (sock_userName socket)),
           (''role'', JStr (sock_userRole socket))]"

definition caseParticipants :: "string \<Rightarrow> string \<Rightarrow> participant list" where
  "caseParticipants citizenId lawyerId =
     [\<lparr>p_user = citizenId, p_role = ''citizen''\<rparr>, \<lparr>p_user = lawyerId, p_role = ''lawyer''\<rparr>]"

definition consultation_request ::
  "socket \<Rightarrow> string \<Rightarrow> json \<Rightarrow> gateway \<Rightarrow> gateway \<times> delivery list" where
  "consultation_request socket lawyerId consultationData g =
     (g, [socket_to g socket (''user_'' @ lawyerId)
            (Notification ''new_consultation_request''
               (JObj (setField ''from'' (fromJson socket) (fieldsOf consultationData))))])"

definition consultation_update ::
  "socket \<Rightarrow> string list \<Rightarrow> json \<Rightarrow> gateway \<Rightarrow> gateway \<times> delivery list" where
  "consultation_update socket participants updateData g =
     (g, map (\<lambda>participantId. socket_to g socket (''user_'' @ participantId)
                (Notification ''consultation_updated'' updateData))
           (filter (\<lambda>participantId. participantId \<noteq> sock_userId socket) participants))"

record case_assignment =
  ca_citizenId :: string
  ca_lawyerId :: string
  ca_caseData :: json
  ca_caseType :: string
  ca_caseId :: string

definition case_assigned ::
  "faults \<Rightarrow> socket \<Rightarrow> case_assignment \<Rightarrow> gateway \<Rightarrow> gateway \<times> delivery list" where
  "case_assigned flt socket data g =
     (if flt CreateRoom \<noteq> None then
        (g, [socket_emit socket (ErrorEvent ''Failed to process case assignment'' None)])
      else
        let (chat, d') = createChatRoom (store g)
                           (caseParticipants (ca_citizenId data) (ca_lawyerId data))
                           (ca_caseType data) (Some (ca_caseType data, ca_caseId data));
            g1 = g\<lparr>store := d'\<rparr>;
            assignmentData =
              JObj (setField ''chatCreated'' (JBool True)
                     (setField ''chatId'' (JStr (ch_chatId chat)) (fieldsOf (ca_caseData data))))
        in (g1, [socket_to g1 socket (''user_'' @ ca_citizenId data)
                   (Notification ''case_assignment_update'' assignmentData),
                 socket_to g1 socket (''user_'' @ ca_lawyerId data)
                   (Notification ''new_case_assigned'' assignmentData)]))"

definition lawyer_request_sent ::
  "int \<Rightarrow> socket \<Rightarrow> string \<Rightarrow> json \<Rightarrow> gateway \<Rightarrow> gateway \<times> delivery list" where
  "lawyer_request_sent now socket citizenId requestData g =
     (g, [socket_to g socket (''user_'' @ citizenId)
            (Notification ''new_lawyer_request''
               (JObj (setField ''timestamp'' (JNum now) (fieldsOf requestData))))])"

definition citizen_request_sent ::
  "int \<Rightarrow> socket \<Rightarrow> string \<Rightarrow> json \<Rightarrow> gateway \<Rightarrow> gateway \<times> delivery list" where
  "citizen_request_sent now socket lawyerId requestData g =
     (g, [socket_to g socket (''user_'' @ lawyerId)
            (Notification ''new_citizen_request''
               (JObj (setField ''timestamp'' (JNum now) (fieldsOf requestData))))])"

record request_response =
  rr_targetUserId :: string
  rr_responseData :: "json option"
  rr_createChat :: "bool option"
  rr_caseType :: string
  rr_caseId :: string
  rr_citizenId :: string
  rr_lawyerId :: string

text \<open>Reading \<open>responseData.action\<close> throws when \<open>responseData\<close> is missing.\<close>

definition request_responded ::
  "faults \<Rightarrow> int \<Rightarrow> socket \<Rightarrow> request_response \<Rightarrow> gateway \<Rightarrow> gateway \<times> delivery list" where
  "request_responded flt now socket data g =
     (let failed = (g, [socket_emit socket (ErrorEvent ''Failed to process request response'' None)]);
          respond = (\<lambda>g' fs. (g', [socket_to g' socket (''user_'' @ rr_targetUserId data)
                        (Notification ''request_response''
                           (JObj (setField ''timestamp'' (JNum now) fs)))]))
      in if rr_createChat data = Some True then
           (case rr_responseData data of
              None \<Rightarrow> failed
            | Some responseData \<Rightarrow>
                if map_of (fieldsOf responseData) ''action'' = Some (JStr ''accepted'') then
                  (if flt CreateRoom \<noteq> None then failed
                   else
                     let (chat, d') = createChatRoom (store g)
                                        (caseParticipants (rr_citizenId data) (rr_lawyerId data))
                                        (rr_caseType data)
                                        (Some (rr_caseType data, rr_caseId data))
                     in respond (g\<lparr>store := d'\<rparr>)
                          (setField ''chatCreated'' (JBool True)
                             (setField ''chatId'' (JStr (ch_chatId chat)) (fieldsOf responseData))))
                else respond g (fieldsOf responseData))
         else respond g (case rr_responseData data of None \<Rightarrow> [] | Some r \<Rightarrow> fieldsOf r))"

definition direct_message_request ::
  "faults \<Rightarrow> int \<Rightarrow> socket \<Rightarrow> string \<Rightarrow> jsstring option \<Rightarrow> gateway \<Rightarrow> gateway \<times> delivery list" where
  "direct_message_request flt now socket lawyerId message g =
     (if flt CreateRoom \<noteq> None then
        (g, [socket_emit socket (ErrorEvent ''Failed to send direct message request'' None)])
      else
        let (chat, d') = createChatRoom (store g)
                           [\<lparr>p_user = sock_userId socket, p_role = sock_userRole socket\<rparr>,
                            \<lparr>p_user = lawyerId, p_role = ''lawyer''\<rparr>] ''direct'' None;
            g1 = g\<lparr>store := d'\<rparr>
        in (g1, [socket_to g1 socket (''user_'' @ lawyerId)
                   (Notification ''new_direct_message_request''
                      (JObj [(''from'', fromJson socket), (''chatId'', JStr (ch_chatId chat)),
                             (''message'', JText (orDefault message (js ''New message request''))),
                             (''timestamp'', JNum now)])),
                 socket_emit socket
                   (Notification ''direct_message_request_sent''
                      (JObj [(''success'', JBool True), (''chatId'', JStr (ch_chatId chat))]))]))"


subsection \<open>Suspension of the join handler\<close>

text \<open>
  The handler of \<open>join_chat\<close> suspends at \<open>await validateChatAccess\<close>, and the handlers
  of other events, the socket's own \<open>disconnect\<close> among them, run before it resumes.
  \<open>join_chat_await\<close> is the outcome of the awaited call on the store it reads, and
  \<open>join_chat_resume\<close> is the handler from the point where it resumes with that outcome,
  on the gateway as it is by then. The registry is written in the stretch that follows
  this first await; after the later awaits of the handler only the store is written and
  events are emitted. With nothing run in between, the two make up \<open>join_chat\<close>.
\<close>

definition join_chat_await :: "faults \<Rightarrow> socket \<Rightarrow> string \<Rightarrow> gateway \<Rightarrow> string + bool" where
  "join_chat_await flt socket chatId g =
     (case flt ValidateAccess of
        Some e \<Rightarrow> Inl e
      | None \<Rightarrow> Inr (validateChatAccess (store g) chatId (sock_userId socket)))"

definition join_chat_resume ::
  "faults \<Rightarrow> socket \<Rightarrow> string \<Rightarrow> string + bool \<Rightarrow> gateway \<Rightarrow> gateway \<times> delivery list" where
  "join_chat_resume flt socket chatId outcome g =
     (case outcome of
        Inl e \<Rightarrow> (g, [socket_emit socket (ErrorEvent ''Failed to join chat'' None)])
      | Inr hasAccess \<Rightarrow>
          if \<not> hasAccess then
            (g, [socket_emit socket (ErrorEvent ''Access denied to chat room'' None)])
          else
            let g1 = g\<lparr>rooms := (rooms g)(chatId := insert (sock_id socket) (rooms g chatId)),
                       activeChatRooms := (activeChatRooms g)(chatId \<mapsto>
                          insert (sock_id socket)
                            (case activeChatRooms g chatId of
                               None \<Rightarrow> {} | Some userSet \<Rightarrow> userSet))\<rparr>
            in
            if flt FindChat \<noteq> None then
              (g1, [socket_emit socket (ErrorEvent ''Failed to join chat'' None)])
            else (case findChat (store g1) chatId of
              None \<Rightarrow> (g1, [socket_emit socket (ChatJoined chatId True)])
            | Some chat \<Rightarrow>
                if flt SaveChat \<noteq> None then
                  (g1, [socket_emit socket (ErrorEvent ''Failed to join chat'' None)])
                else
                  let g2 = g1\<lparr>store := saveChat (store g1)
                                         (markAsRead chat (sock_userId socket) None)\<rparr>
                  in (g2, [socket_to g2 socket chatId
                             (MessagesRead chatId (sock_userId socket) None),
                           socket_emit socket (ChatJoined chatId True)])))"

text \<open>The page's socket subscriptions: the handler each received event runs.\<close>

definition deliver :: "string \<Rightarrow> server_event \<Rightarrow> chat_page \<Rightarrow> chat_page" where
  "deliver chatId ev p =
     (case ev of
        NewMessage messageData \<Rightarrow> on_new_message chatId messageData p
      | MessageSent data \<Rightarrow> on_message_sent data p
      | ErrorEvent msg details \<Rightarrow> on_error p
      | _ \<Rightarrow> p)"

text \<open>What a socket receives from a list of deliveries, in order.\<close>

definition received :: "string \<Rightarrow> delivery list \<Rightarrow> server_event list" where
  "received sid out = map snd (filter (\<lambda>dl. sid \<in> fst dl) out)"

fun isNewMessage :: "server_event \<Rightarrow> bool" where
  "isNewMessage (NewMessage m) = True"
| "isNewMessage _ = False"

text \<open>The invariant of the room registry: every entry is a non-empty set of connected
  sockets.\<close>

definition registry_ok :: "gateway \<Rightarrow> bool" where
  "registry_ok g \<longleftrightarrow>
     (\<forall>chatId userSet. activeChatRooms g chatId = Some userSet \<longrightarrow>
        userSet \<noteq> {} \<and> userSet \<subseteq> dom (activeUsers g))"




section \<open>Concrete inputs used by the witnesses\<close>

definition alice :: sender_summary where
  "alice = \<lparr>s_id = ''a1'', s_name = ''Alice'', s_role = ''citizen''\<rparr>"

definition hello :: jsstring where
  "hello = [0x48, 0x65, 0x6C, 0x6C, 0x6F]"

definition page1 :: chat_page where
  "page1 = fst (sendMessage 7 ''c1'' alice True \<lparr>messages = [], newMessage = hello, isSending = False\<rparr>)"

definition echo1 :: message where
  "echo1 = \<lparr>m_id = Some 0, m_tempId = Some (toString 7), m_chatId = ''c1'', m_content = hello,
     m_messageType = Some ''text'', m_sender = alice, m_timestamp = 8, m_isRead = Some False,
     m_status = None\<rparr>"

definition confirm1 :: confirmation where
  "confirm1 = \<lparr>c_success = True, c_messageId = 0, c_tempId = Some (toString 7), c_timestamp = 8\<rparr>"

definition noFault :: faults where
  "noFault = (\<lambda>_. None)"

definition citizenA :: user where
  "citizenA = \<lparr>u_id = ''a1'', u_name = ''Alice'', u_role = ''citizen'', u_isActive = True,
     u_verificationStatus = None, u_messageRequests = []\<rparr>"

definition lawyerB :: user where
  "lawyerB = \<lparr>u_id = ''b2'', u_name = ''Bob'', u_role = ''lawyer'', u_isActive = True,
     u_verificationStatus = Some ''verified'', u_messageRequests = []\<rparr>"

definition citizenId :: string where
  "citizenId = ''64b000000000000000000001''"

definition lawyerLower :: string where
  "lawyerLower = ''64b00000000000000000000b''"

definition lawyerUpper :: string where
  "lawyerUpper = ''64B00000000000000000000B''"

definition requester :: sender_summary where
  "requester = \<lparr>s_id = citizenId, s_name = ''Alice'', s_role = ''citizen''\<rparr>"

definition db0 :: db where
  "db0 = \<lparr>users = [citizenA\<lparr>u_id := citizenId\<rparr>, lawyerB\<lparr>u_id := lawyerLower\<rparr>],
           chats = [], nextId = 0\<rparr>"

definition request1 :: "db \<times> response \<times> (string \<times> server_event) list" where
  "request1 = sendDirectMessageRequest noFault 1000 requester lawyerLower None db0"

definition request2 :: "db \<times> response \<times> (string \<times> server_event) list" where
  "request2 = sendDirectMessageRequest noFault 2000 requester lawyerUpper None (fst request1)"

definition sockA :: socket where
  "sockA = \<lparr>sock_id = ''sA'', sock_userId = ''a1'', sock_userRole = ''citizen'',
     sock_userName = ''Alice''\<rparr>"

definition sockB :: socket where
  "sockB = \<lparr>sock_id = ''sB'', sock_userId = ''b2'', sock_userRole = ''lawyer'',
     sock_userName = ''Bob''\<rparr>"

definition sockC :: socket where
  "sockC = \<lparr>sock_id = ''sC'', sock_userId = ''c3'', sock_userRole = ''citizen'',
     sock_userName = ''Carol''\<rparr>"

definition roomAB :: string where
  "roomAB = ''direct_a1_b2''"

definition chatAB :: chat where
  "chatAB = \<lparr>ch_chatId = roomAB,
     ch_participants = [\<lparr>p_user = ''a1'', p_role = ''citizen''\<rparr>,
                        \<lparr>p_user = ''b2'', p_role = ''lawyer''\<rparr>],
     ch_chatType = ''direct'', ch_status = ''active'', ch_caseRef = None,
     ch_messages = [\<lparr>sm_id = 0, sm_sender = ''b2'', sm_content = hello,
        sm_messageType = ''text'', sm_timestamp = 500, sm_isRead = False\<rparr>],
     ch_lastMessage = Some \<lparr>lm_sender = ''b2'', lm_content = hello, lm_timestamp = 500\<rparr>\<rparr>"

definition dbAB :: db where
  "dbAB = \<lparr>users = [citizenA, lawyerB], chats = [chatAB], nextId = 1\<rparr>"

definition gw0 :: gateway where
  "gw0 = \<lparr>activeUsers = Map.empty, activeChatRooms = Map.empty, rooms = (\<lambda>room. {}),
     store = dbAB,
     limiter = \<lparr>rl_limit = 2, rl_window = 3600000, rl_sent = (\<lambda>uid. [])\<rparr>,
     development = False\<rparr>"

definition gw1 :: gateway where
  "gw1 = connection sockC (connection sockB (connection sockA gw0))"

definition reqC :: send_request where
  "reqC = \<lparr>r_chatId = roomAB, r_content = Some hello, r_messageType = None,
     r_tempId = Some ''t1''\<rparr>"

definition sentA :: "chat_page \<times> send_request option" where
  "sentA = sendMessage 7 roomAB (sender_of sockA) True
             \<lparr>messages = [], newMessage = hello, isSending = False\<rparr>"

definition reqA :: send_request where
  "reqA = \<lparr>r_chatId = roomAB, r_content = Some hello, r_messageType = None,
     r_tempId = Some ''7''\<rparr>"

definition gwA :: gateway where
  "gwA = fst (join_chat noFault sockA roomAB gw1)"

definition chatAB_read :: chat where
  "chatAB_read = chatAB\<lparr>ch_messages := [\<lparr>sm_id = 0, sm_sender = ''b2'', sm_content = hello,
        sm_messageType = ''text'', sm_timestamp = 500, sm_isRead = True\<rparr>]\<rparr>"

definition echoA :: message where
  "echoA = \<lparr>m_id = Some 1, m_tempId = None, m_chatId = roomAB, m_content = hello,
     m_messageType = Some ''text'', m_sender = sender_of sockA, m_timestamp = 5000,
     m_isRead = Some False, m_status = None\<rparr>"

definition gwB :: gateway where
  "gwB = fst (join_chat noFault sockB roomAB gw1)"


definition padded :: "nat \<Rightarrow> jsstring" where
  "padded n = 0x20 # replicate n 0x61"

definition reqPadded :: "nat \<Rightarrow> send_request" where
  "reqPadded n = \<lparr>r_chatId = roomAB, r_content = Some (padded n), r_messageType = None,
     r_tempId = None\<rparr>"





section \<open>Properties of the client session controller\<close>

lemma toString_nonempty: "toString n \<noteq> []"
  by (subst toString.simps) simp

lemma toString_digit: "n < 10 \<Longrightarrow> toString n = [digit n]"
  by (subst toString.simps) simp

lemma messageExists_pending:
  assumes "i < length prev" "m_tempId (prev ! i) = Some X" "X \<noteq> []" "m_tempId md = Some X"
  shows "messageExists md prev"
  unfolding messageExists_def list_ex_iff
  using assms by (intro bexI[of _ "prev ! i"]) auto

lemma new_message_replaces:
  assumes "i < length (messages p)" "m_tempId (messages p ! i) = Some X" "X \<noteq> []"
    and "m_chatId md = chatId" "m_tempId md = Some X"
  shows "messages (on_new_message chatId md p) =
           map (\<lambda>msg. if m_tempId msg = Some X then md\<lparr>m_status := Some ''sent''\<rparr> else msg) (messages p)"
  using assms messageExists_pending[of i "messages p" X md]
  by (simp add: on_new_message_def)

lemma message_sent_updates:
  assumes "X \<noteq> []" "c_tempId d = Some X"
  shows "messages (on_message_sent d p) =
           map (\<lambda>msg. if m_tempId msg = Some X
                      then msg\<lparr>m_id := Some (c_messageId d), m_status := Some ''sent'',
                               m_timestamp := c_timestamp d\<rparr> else msg) (messages p)"
  using assms by (simp add: on_message_sent_def Let_def)

lemma count_map_keep:
  assumes "\<And>x. P (f x) = P x"
  shows "length (filter P (map f xs)) = length (filter P xs)"
  using assms by (induction xs) auto


lemma new_message_path:
  assumes "i < length (messages p)" and "m_tempId (messages p ! i) = Some X" and "X \<noteq> []"
    and "m_chatId md = chatId" and "m_tempId md = Some X"
  shows "length (messages (on_new_message chatId md p)) = length (messages p) \<and>
         messages (on_new_message chatId md p) ! i = md\<lparr>m_status := Some ''sent''\<rparr> \<and>
         (\<forall>j < length (messages p). m_tempId (messages p ! j) \<noteq> Some X
              \<longrightarrow> messages (on_new_message chatId md p) ! j = messages p ! j) \<and>
         shown X (on_new_message chatId md p) = shown X p"
proof -
  have eq: "messages (on_new_message chatId md p) =
      map (\<lambda>msg. if m_tempId msg = Some X then md\<lparr>m_status := Some ''sent''\<rparr> else msg)
        (messages p)"
    using assms by (rule new_message_replaces)
  have cnt: "shown X (on_new_message chatId md p) = shown X p"
    unfolding shown_def eq using assms(5) by (intro count_map_keep) simp
  show ?thesis using assms(1,2) cnt by (simp add: eq)
qed

lemma message_sent_path:
  assumes "i < length (messages p)" and "m_tempId (messages p ! i) = Some X" and "X \<noteq> []"
    and "c_tempId d = Some X"
  shows "length (messages (on_message_sent d p)) = length (messages p) \<and>
         messages (on_message_sent d p) ! i =
           (messages p ! i)\<lparr>m_id := Some (c_messageId d), m_status := Some ''sent'',
                             m_timestamp := c_timestamp d\<rparr> \<and>
         (\<forall>j < length (messages p). m_tempId (messages p ! j) \<noteq> Some X
              \<longrightarrow> messages (on_message_sent d p) ! j = messages p ! j) \<and>
         shown X (on_message_sent d p) = shown X p"
proof -
  have eq: "messages (on_message_sent d p) =
      map (\<lambda>msg. if m_tempId msg = Some X
                 then msg\<lparr>m_id := Some (c_messageId d), m_status := Some ''sent'',
                          m_timestamp := c_timestamp d\<rparr> else msg) (messages p)"
    using assms(3,4) by (rule message_sent_updates)
  have cnt: "shown X (on_message_sent d p) = shown X p"
    unfolding shown_def eq by (intro count_map_keep) simp
  show ?thesis using assms(1,2) cnt by (simp add: eq)
qed

text \<open>
  Claim C6. A pending optimistic entry carries the correlation id \<open>Date.now().toString()\<close>
  that \<open>sendMessage\<close> gave it. A broadcast \<open>new_message\<close> for the open chat with that
  correlation id replaces the entry in place by the broadcast object with status \<open>sent\<close>,
  and a \<open>message_sent\<close> confirmation with that correlation id sets the entry's persistent
  id, status \<open>sent\<close> and timestamp. On either path the list keeps its length, entries with
  another correlation id are untouched, and the number of entries shown for the send is
  unchanged (one stays one).
\<close>

theorem reconciliation_one_message:
  assumes "i < length (messages p)" and "m_tempId (messages p ! i) = Some (toString now)"
    and "m_chatId md = chatId" and "m_tempId md = Some (toString now)"
    and "c_tempId d = Some (toString now)"
  shows "(length (messages (on_new_message chatId md p)) = length (messages p) \<and>
          messages (on_new_message chatId md p) ! i = md\<lparr>m_status := Some ''sent''\<rparr> \<and>
          (\<forall>j < length (messages p). m_tempId (messages p ! j) \<noteq> Some (toString now)
               \<longrightarrow> messages (on_new_message chatId md p) ! j = messages p ! j) \<and>
          shown (toString now) (on_new_message chatId md p) = shown (toString now) p) \<and>
         (length (messages (on_message_sent d p)) = length (messages p) \<and>
          messages (on_message_sent d p) ! i =
            (messages p ! i)\<lparr>m_id := Some (c_messageId d), m_status := Some ''sent'',
                              m_timestamp := c_timestamp d\<rparr> \<and>
          (\<forall>j < length (messages p). m_tempId (messages p ! j) \<noteq> Some (toString now)
               \<longrightarrow> messages (on_message_sent d p) ! j = messages p ! j) \<and>
          shown (toString now) (on_message_sent d p) = shown (toString now) p)"
  using new_message_path[OF assms(1,2) toString_nonempty assms(3,4)]
        message_sent_path[OF assms(1,2) toString_nonempty assms(5)]
  by blast

lemma trim_hello: "trim hello = hello"
  by (simp add: trim_def hello_def isWhiteSpace_def)

lemma page1_messages: "messages page1 = [optimistic 7 ''c1'' alice hello]"
  by (simp add: page1_def sendMessage_def trim_hello) (simp add: hello_def)

theorem reconciliation_one_message_witness:
  "(0::nat) < length (messages page1) \<and> m_tempId (messages page1 ! 0) = Some (toString 7) \<and>
   m_status (messages page1 ! 0) = Some ''sending'' \<and> shown (toString 7) page1 = 1 \<and>
   messages (on_new_message ''c1'' echo1 page1) = [echo1\<lparr>m_status := Some ''sent''\<rparr>] \<and>
   shown (toString 7) (on_new_message ''c1'' echo1 page1) = 1 \<and>
   messages (on_message_sent confirm1 page1) =
     [(optimistic 7 ''c1'' alice hello)\<lparr>m_id := Some 0, m_status := Some ''sent'', m_timestamp := 8\<rparr>] \<and>
   shown (toString 7) (on_message_sent confirm1 page1) = 1"
proof -
  have h1: "(0::nat) < length (messages page1)" by (simp add: page1_messages)
  have h2: "m_tempId (messages page1 ! 0) = Some (toString 7)"
    by (simp add: page1_messages optimistic_def)
  have h3: "m_chatId echo1 = ''c1''" by (simp add: echo1_def)
  have h4: "m_tempId echo1 = Some (toString 7)" by (simp add: echo1_def)
  have h5: "c_tempId confirm1 = Some (toString 7)" by (simp add: confirm1_def)
  have s: "shown (toString 7) page1 = 1"
    by (simp add: shown_def page1_messages optimistic_def)
  note r = reconciliation_one_message[OF h1 h2 h3 h4 h5]
  have l1: "length (messages (on_new_message ''c1'' echo1 page1)) = 1"
    using r by (simp add: page1_messages)
  have l2: "length (messages (on_message_sent confirm1 page1)) = 1"
    using r by (simp add: page1_messages)
  have m1: "messages (on_new_message ''c1'' echo1 page1) = [echo1\<lparr>m_status := Some ''sent''\<rparr>]"
    using r l1 by (cases "messages (on_new_message ''c1'' echo1 page1)") auto
  have m2: "messages (on_message_sent confirm1 page1) =
     [(optimistic 7 ''c1'' alice hello)\<lparr>m_id := Some 0, m_status := Some ''sent'', m_timestamp := 8\<rparr>]"
    using r l2 by (cases "messages (on_message_sent confirm1 page1)") (auto simp: page1_messages confirm1_def)
  show ?thesis using h1 h2 s r m1 m2 by (simp add: page1_messages optimistic_def)
qed

section \<open>Properties of direct-chat requests\<close>

lemma js_less_irrefl: "\<not> js_less a a"
  by (induction a) auto

lemma js_less_asym: "js_less a b \<Longrightarrow> \<not> js_less b a"
  by (induction a b rule: js_less.induct) (auto split: if_splits)

lemma js_less_total: "\<not> js_less a b \<Longrightarrow> \<not> js_less b a \<Longrightarrow> a = b"
  by (induction a b rule: js_less.induct) (auto split: if_splits)

lemma jsSort_pair: "jsSort [a, b] = (if js_less b a then [b, a] else [a, b])"
  by (simp add: jsSort_def)

lemma directChatId_commute: "directChatId a b = directChatId b a"
  using js_less_asym[of a b] js_less_asym[of b a] js_less_total[of a b]
  by (auto simp: directChatId_def jsSort_pair)

lemma find_append_new:
  "find P xs = None \<Longrightarrow> P y \<Longrightarrow> find P (xs @ [y]) = Some y"
  by (induction xs) (auto split: if_splits)

lemma findChat_users [simp]: "findChat (d\<lparr>users := us\<rparr>) k = findChat d k"
  by (simp add: findChat_def)

lemma castObjectId_canonical:
  "castObjectId s = Some oid \<Longrightarrow> length oid = 24"
  by (auto simp: castObjectId_def split: if_splits)

lemma request_success_room:
  assumes "sendDirectMessageRequest flt now reqUser lawyerId msg d = (d', r, ev)"
    and "res_success r"
  shows "findChat d' (directChatId (s_id reqUser) lawyerId) \<noteq> None \<and>
         res_chatId r = Some (directChatId (s_id reqUser) lawyerId)"
  using assms
  by (auto simp: sendDirectMessageRequest_def failedRequest_def Let_def findChat_def
      find_append_new split: if_splits option.splits)

lemma request_existing_room:
  assumes "findChat d (directChatId (s_id reqUser) lawyerId) \<noteq> None"
    and "sendDirectMessageRequest flt now reqUser lawyerId msg d = (d', r, ev)"
  shows "chats d' = chats d \<and> nextId d' = nextId d \<and>
         (res_success r \<longrightarrow> res_chatId r = Some (directChatId (s_id reqUser) lawyerId))"
  using assms
  by (auto simp: sendDirectMessageRequest_def failedRequest_def Let_def
      split: if_splits option.splits)

text \<open>
  With the lawyer's id spelled the same way in both requests, the second request of a
  pair finds the room of the first: the chat collection stays as it is and a successful
  answer carries the same key.
\<close>

lemma same_spelling_idempotent:
  assumes "sendDirectMessageRequest flt1 now1 reqUser lawyerId msg1 d = (d1, r1, ev1)"
    and "res_success r1"
    and "sendDirectMessageRequest flt2 now2 reqUser lawyerId msg2 d1 = (d2, r2, ev2)"
  shows "res_chatId r1 = Some (directChatId (s_id reqUser) lawyerId) \<and>
         (res_success r2 \<longrightarrow> res_chatId r2 = res_chatId r1) \<and>
         chats d2 = chats d1"
proof -
  have first: "findChat d1 (directChatId (s_id reqUser) lawyerId) \<noteq> None \<and>
      res_chatId r1 = Some (directChatId (s_id reqUser) lawyerId)"
    using assms(1,2) by (rule request_success_room)
  then have "findChat d1 (directChatId (s_id reqUser) lawyerId) \<noteq> None" by simp
  from request_existing_room[OF this assms(3)] first show ?thesis by simp
qed

lemma cast_spellings:
  "castObjectId lawyerLower = Some lawyerLower" "castObjectId lawyerUpper = Some lawyerLower"
  by (simp_all add: castObjectId_def lawyerLower_def lawyerUpper_def isHexDigit_def lowerHex_def)

lemma key_lower:
  "directChatId citizenId lawyerLower =
     ''direct_64b000000000000000000001_64b00000000000000000000b''"
  by (simp add: directChatId_def jsSort_def citizenId_def lawyerLower_def)

lemma key_upper:
  "directChatId citizenId lawyerUpper =
     ''direct_64B00000000000000000000B_64b000000000000000000001''"
  by (simp add: directChatId_def jsSort_def citizenId_def lawyerUpper_def)

lemma request1_value:
  "fst (snd request1) = \<lparr>res_status = 200, res_success = True,
       res_message = ''Message request sent successfully'',
       res_chatId = Some ''direct_64b000000000000000000001_64b00000000000000000000b''\<rparr> \<and>
   users (fst request1) =
     [citizenA\<lparr>u_id := citizenId,
               u_messageRequests := [\<lparr>mr_toUserId = lawyerLower, mr_timestamp = 1000\<rparr>]\<rparr>,
      lawyerB\<lparr>u_id := lawyerLower\<rparr>] \<and>
   map ch_chatId (chats (fst request1)) =
     [''direct_64b000000000000000000001_64b00000000000000000000b''] \<and>
   map ch_participants (chats (fst request1)) =
     [[\<lparr>p_user = citizenId, p_role = ''citizen''\<rparr>, \<lparr>p_user = lawyerLower, p_role = ''lawyer''\<rparr>]] \<and>
   nextId (fst request1) = 1"
  by (simp add: request1_def sendDirectMessageRequest_def noFault_def db0_def citizenA_def
      lawyerB_def requester_def canSendMessageRequest_def addMessageRequest_def oneHourAgo_def
      cast_spellings key_lower findChat_def Let_def)

text \<open>
  Claim C4, evaluated. A citizen requests a verified lawyer twice within the hour, the
  lawyer's id written once with lower-case and once with upper-case hexadecimal letters.
  Both spellings are cast to the same id, so both requests find the lawyer and succeed.
  The key is built from the spelling received: the two answers carry different keys, the
  second request does not find the room of the first, and the chat collection ends with
  two rooms for the one pair of participants.
\<close>

theorem direct_chat_duplicated_by_spelling:
  "castObjectId lawyerUpper = castObjectId lawyerLower \<and>
   res_status (fst (snd request1)) = 200 \<and> res_status (fst (snd request2)) = 200 \<and>
   res_chatId (fst (snd request1)) =
     Some ''direct_64b000000000000000000001_64b00000000000000000000b'' \<and>
   res_chatId (fst (snd request2)) =
     Some ''direct_64B00000000000000000000B_64b000000000000000000001'' \<and>
   map ch_chatId (chats (fst request1)) =
     [''direct_64b000000000000000000001_64b00000000000000000000b''] \<and>
   map ch_chatId (chats (fst request2)) =
     [''direct_64b000000000000000000001_64b00000000000000000000b'',
      ''direct_64B00000000000000000000B_64b000000000000000000001''] \<and>
   map ch_participants (chats (fst request2)) =
     [[\<lparr>p_user = citizenId, p_role = ''citizen''\<rparr>, \<lparr>p_user = lawyerLower, p_role = ''lawyer''\<rparr>],
      [\<lparr>p_user = citizenId, p_role = ''citizen''\<rparr>, \<lparr>p_user = lawyerLower, p_role = ''lawyer''\<rparr>]]"
proof -
  obtain d1 where d1: "fst request1 = d1" by simp
  have u: "users d1 =
     [citizenA\<lparr>u_id := citizenId,
               u_messageRequests := [\<lparr>mr_toUserId = lawyerLower, mr_timestamp = 1000\<rparr>]\<rparr>,
      lawyerB\<lparr>u_id := lawyerLower\<rparr>]"
    and k: "map ch_chatId (chats d1) =
     [''direct_64b000000000000000000001_64b00000000000000000000b'']"
    and ps: "map ch_participants (chats d1) =
     [[\<lparr>p_user = citizenId, p_role = ''citizen''\<rparr>, \<lparr>p_user = lawyerLower, p_role = ''lawyer''\<rparr>]]"
    using request1_value d1 by simp_all
  have nf: "findChat d1 ''direct_64B00000000000000000000B_64b000000000000000000001'' = None"
    using k by (cases "chats d1") (auto simp: findChat_def)
  have r2: "request2 = sendDirectMessageRequest noFault 2000 requester lawyerUpper None d1"
    by (simp add: request2_def d1)
  have two: "res_status (fst (snd request2)) = 200 \<and>
     res_chatId (fst (snd request2)) =
       Some ''direct_64B00000000000000000000B_64b000000000000000000001'' \<and>
     map ch_chatId (chats (fst request2)) =
       map ch_chatId (chats d1) @ [''direct_64B00000000000000000000B_64b000000000000000000001''] \<and>
     map ch_participants (chats (fst request2)) =
       map ch_participants (chats d1) @
         [[\<lparr>p_user = citizenId, p_role = ''citizen''\<rparr>, \<lparr>p_user = lawyerLower, p_role = ''lawyer''\<rparr>]]"
    unfolding r2
    using nf
    by (simp add: sendDirectMessageRequest_def noFault_def u citizenA_def lawyerB_def
        requester_def canSendMessageRequest_def addMessageRequest_def oneHourAgo_def
        cast_spellings key_upper Let_def)
  show ?thesis using two request1_value k ps by (simp add: cast_spellings d1)
qed

section \<open>The room registry\<close>

lemma registry_ok_same:
  assumes "registry_ok g" and "activeChatRooms g' = activeChatRooms g"
    and "dom (activeUsers g') = dom (activeUsers g)"
  shows "registry_ok g'"
  using assms by (simp add: registry_ok_def)

lemma join_chat_registry:
  assumes "registry_ok g" and "sock_id socket \<in> dom (activeUsers g)"
  shows "registry_ok (fst (join_chat flt socket chatId g))"
  using assms
  by (auto simp: join_chat_def registry_ok_def Let_def split: option.splits if_splits)

lemma leave_chat_registry:
  assumes "registry_ok g"
  shows "registry_ok (fst (leave_chat socket chatId g))"
  using assms
  by (auto simp: leave_chat_def registry_ok_def split: option.splits if_splits)

lemma disconnect_registry:
  assumes "registry_ok g"
  shows "registry_ok (fst (disconnect socket g))"
  using assms
  by (auto simp: disconnect_def registry_ok_def Let_def split: option.splits if_splits)

lemma send_message_registry:
  "activeChatRooms (fst (send_message flt now socket md g)) = activeChatRooms g \<and>
   activeUsers (fst (send_message flt now socket md g)) = activeUsers g \<and>
   rooms (fst (send_message flt now socket md g)) = rooms g"
  by (auto simp: send_message_def Let_def split: option.splits if_splits sum.splits prod.splits)

lemma mark_messages_read_registry:
  "activeChatRooms (fst (mark_messages_read flt socket chatId ids g)) = activeChatRooms g \<and>
   activeUsers (fst (mark_messages_read flt socket chatId ids g)) = activeUsers g \<and>
   rooms (fst (mark_messages_read flt socket chatId ids g)) = rooms g"
  by (auto simp: mark_messages_read_def Let_def split: option.splits if_splits)

lemma case_assigned_registry:
  "activeChatRooms (fst (case_assigned flt socket data g)) = activeChatRooms g \<and>
   activeUsers (fst (case_assigned flt socket data g)) = activeUsers g"
  by (auto simp: case_assigned_def Let_def split: prod.splits)

lemma request_responded_registry:
  "activeChatRooms (fst (request_responded flt now socket data g)) = activeChatRooms g \<and>
   activeUsers (fst (request_responded flt now socket data g)) = activeUsers g"
  by (auto simp: request_responded_def Let_def split: prod.splits option.splits)

lemma direct_message_request_registry:
  "activeChatRooms (fst (direct_message_request flt now socket lawyerId message g)) = activeChatRooms g \<and>
   activeUsers (fst (direct_message_request flt now socket lawyerId message g)) = activeUsers g"
  by (auto simp: direct_message_request_def Let_def split: prod.splits)

lemma update_status_registry:
  "activeChatRooms (fst (update_status socket status g)) = activeChatRooms g \<and>
   dom (activeUsers (fst (update_status socket status g))) = dom (activeUsers g)"
  by (auto simp: update_status_def split: option.splits)

lemma connection_registry:
  assumes "registry_ok g"
  shows "registry_ok (connection socket g)"
  using assms by (auto simp: connection_def registry_ok_def)

lemma join_chat_entry:
  assumes "flt ValidateAccess = None" and "validateChatAccess (store g) chatId (sock_userId socket)"
  shows "activeChatRooms (fst (join_chat flt socket chatId g)) =
           (activeChatRooms g)(chatId \<mapsto> insert (sock_id socket)
              (case activeChatRooms g chatId of None \<Rightarrow> {} | Some userSet \<Rightarrow> userSet))"
  using assms by (auto simp: join_chat_def Let_def split: option.splits)

lemma disconnect_users:
  "activeUsers (fst (disconnect socket g)) = (activeUsers g)(sock_id socket := None)"
  by (simp add: disconnect_def Let_def)

lemma join_chat_segments:
  "join_chat flt socket chatId g =
     join_chat_resume flt socket chatId (join_chat_await flt socket chatId g) g"
  by (auto simp: join_chat_def join_chat_resume_def join_chat_await_def Let_def
      split: option.splits)

text \<open>
  A join that resumes while its socket is still connected keeps every entry of the
  registry a non-empty set of connected sockets, as leave, disconnect and the connection
  handler do.
\<close>

lemma join_chat_resume_registry:
  assumes "registry_ok g" and "sock_id socket \<in> dom (activeUsers g)"
  shows "registry_ok (fst (join_chat_resume flt socket chatId outcome g))"
  using assms
  by (auto simp: join_chat_resume_def registry_ok_def Let_def
      split: option.splits if_splits sum.splits)

lemma gw1_fields:
  "activeUsers gw1 = [''sA'' \<mapsto> \<lparr>au_userId = ''a1'', au_role = ''citizen'', au_name = ''Alice'',
        au_socketId = ''sA'', au_status = None\<rparr>,
      ''sB'' \<mapsto> \<lparr>au_userId = ''b2'', au_role = ''lawyer'', au_name = ''Bob'',
        au_socketId = ''sB'', au_status = None\<rparr>,
      ''sC'' \<mapsto> \<lparr>au_userId = ''c3'', au_role = ''citizen'', au_name = ''Carol'',
        au_socketId = ''sC'', au_status = None\<rparr>]"
  "activeChatRooms gw1 = Map.empty"
  "store gw1 = dbAB"
  "limiter gw1 = \<lparr>rl_limit = 2, rl_window = 3600000, rl_sent = (\<lambda>uid. [])\<rparr>"
  "development gw1 = False"
  by (simp_all add: gw1_def gw0_def connection_def sockA_def sockB_def sockC_def)

lemma gw1_rooms: "rooms gw1 roomAB = {}"
  by (simp add: gw1_def gw0_def connection_def sockA_def sockB_def sockC_def roomAB_def)

lemma access_AB:
  "validateChatAccess dbAB roomAB ''a1''" "validateChatAccess dbAB roomAB ''b2''"
  "\<not> validateChatAccess dbAB roomAB ''c3''" "findChat dbAB roomAB = Some chatAB"
  by (simp_all add: validateChatAccess_def findChat_def dbAB_def chatAB_def)

lemma join_after_disconnect:
  "activeChatRooms (fst (disconnect sockA gw1)) = Map.empty"
  "sock_id sockA \<notin> dom (activeUsers (fst (disconnect sockA gw1)))"
  "activeChatRooms
     (fst (join_chat_resume noFault sockA roomAB (Inr True) (fst (disconnect sockA gw1)))) =
     [roomAB \<mapsto> {sock_id sockA}]"
  "sock_id sockA \<notin> dom (activeUsers
     (fst (join_chat_resume noFault sockA roomAB (Inr True) (fst (disconnect sockA gw1)))))"
proof -
  let ?g = "fst (disconnect sockA gw1)"
  let ?g' = "fst (join_chat_resume noFault sockA roomAB (Inr True) ?g)"
  show reg: "activeChatRooms ?g = Map.empty"
    by (simp add: disconnect_def Let_def gw1_fields)
  show gone: "sock_id sockA \<notin> dom (activeUsers ?g)"
    by (simp add: disconnect_users)
  show "activeChatRooms ?g' = [roomAB \<mapsto> {sock_id sockA}]"
    by (auto simp: join_chat_resume_def Let_def reg split: option.splits)
  have "activeUsers ?g' = activeUsers ?g"
    by (auto simp: join_chat_resume_def Let_def split: option.splits)
  then show "sock_id sockA \<notin> dom (activeUsers ?g')"
    using gone by simp
qed

text \<open>The registry reached in this way violates the invariant, and it was reached from
  registries that satisfy it.\<close>

lemma join_after_disconnect_registry:
  "registry_ok gw1" "registry_ok (fst (disconnect sockA gw1))"
  "\<not> registry_ok
     (fst (join_chat_resume noFault sockA roomAB (Inr True) (fst (disconnect sockA gw1))))"
proof -
  let ?g' = "fst (join_chat_resume noFault sockA roomAB (Inr True) (fst (disconnect sockA gw1)))"
  show ok1: "registry_ok gw1" by (simp add: registry_ok_def gw1_fields)
  then show "registry_ok (fst (disconnect sockA gw1))" by (rule disconnect_registry)
  show "\<not> registry_ok ?g'"
  proof
    assume "registry_ok ?g'"
    moreover have "activeChatRooms ?g' roomAB = Some {sock_id sockA}"
      by (simp add: join_after_disconnect(3))
    ultimately have "{sock_id sockA} \<subseteq> dom (activeUsers ?g')"
      unfolding registry_ok_def by blast
    with join_after_disconnect(4) show False by simp
  qed
qed

text \<open>
  Claim C9, evaluated. Alice's socket is connected and the registry is empty. The socket
  sends \<open>join_chat\<close> for her room; the access check is started and will grant. Before it
  returns the socket disconnects: the disconnect handler removes it from the connected
  sockets and finds nothing of it in the registry. The join handler then resumes with
  the granted access and, without looking at the connection again, creates the room's
  entry with the closed socket in it. The entry is not a set of connected sockets, and
  the handler that would remove the socket has already run.
\<close>

theorem join_resumed_after_disconnect:
  "activeChatRooms gw1 = Map.empty \<and> sock_id sockA \<in> dom (activeUsers gw1) \<and>
   join_chat_await noFault sockA roomAB gw1 = Inr True \<and>
   activeChatRooms (fst (disconnect sockA gw1)) = Map.empty \<and>
   sock_id sockA \<notin> dom (activeUsers (fst (disconnect sockA gw1))) \<and>
   activeChatRooms
     (fst (join_chat_resume noFault sockA roomAB (Inr True) (fst (disconnect sockA gw1)))) =
     [roomAB \<mapsto> {sock_id sockA}] \<and>
   sock_id sockA \<notin> dom (activeUsers
     (fst (join_chat_resume noFault sockA roomAB (Inr True) (fst (disconnect sockA gw1)))))"
proof -
  have con: "sock_id sockA \<in> dom (activeUsers gw1)" by (simp add: gw1_fields sockA_def)
  have aw: "join_chat_await noFault sockA roomAB gw1 = Inr True"
    by (simp add: join_chat_await_def noFault_def gw1_fields access_AB sockA_def)
  show ?thesis using con aw join_after_disconnect by (simp add: gw1_fields)
qed

section \<open>Properties of send-message\<close>

lemma trim_Nil [simp]: "trim [] = []"
  by (simp add: trim_def)

lemma send_empty:
  assumes "\<forall>c. r_content md = Some c \<longrightarrow> trim c = []"
  shows "send_message flt now socket md g =
           (g, [socket_emit socket (ErrorEvent ''Message content cannot be empty'' None)])"
  using assms by (auto simp: send_message_def Let_def split: option.splits)

lemma send_too_long:
  assumes "r_content md = Some c" and "trim c \<noteq> []" and "length c > 1000"
  shows "send_message flt now socket md g =
           (g, [socket_emit socket (ErrorEvent ''Message too long. Maximum 1000 characters.'' None)])"
  using assms by (auto simp: send_message_def Let_def)

lemma send_rate_limited:
  assumes "r_content md = Some c" and "trim c \<noteq> []" and "length c \<le> 1000"
    and "checkMessageRateLimit flt now (sock_userId socket) (limiter g) = (False, rl)"
  shows "send_message flt now socket md g =
           (g\<lparr>limiter := rl\<rparr>,
            [socket_emit socket (ErrorEvent ''Message rate limit exceeded. Please slow down.'' None)])"
  using assms by (auto simp: send_message_def Let_def)

lemma send_access_denied:
  assumes "r_content md = Some c" and "trim c \<noteq> []" and "length c \<le> 1000"
    and "checkMessageRateLimit flt now (sock_userId socket) (limiter g) = (True, rl)"
    and "flt ValidateAccess = None"
    and "\<not> validateChatAccess (store g) (r_chatId md) (sock_userId socket)"
  shows "send_message flt now socket md g =
           (g\<lparr>limiter := rl\<rparr>,
            [socket_emit socket (ErrorEvent ''Chat not found or access denied'' None)])"
  using assms by (auto simp: send_message_def Let_def)

lemma send_access_fault:
  assumes "r_content md = Some c" and "trim c \<noteq> []" and "length c \<le> 1000"
    and "checkMessageRateLimit flt now (sock_userId socket) (limiter g) = (True, rl)"
    and "flt ValidateAccess = Some e"
  shows "send_message flt now socket md g =
           (g\<lparr>limiter := rl\<rparr>, [sendFailed (g\<lparr>limiter := rl\<rparr>) socket e])"
  using assms by (auto simp: send_message_def Let_def)

lemma send_save_fault:
  assumes "r_content md = Some c" and "trim c \<noteq> []" and "length c \<le> 1000"
    and "checkMessageRateLimit flt now (sock_userId socket) (limiter g) = (True, rl)"
    and "flt ValidateAccess = None"
    and "validateChatAccess (store g) (r_chatId md) (sock_userId socket)"
    and "flt SaveMessage = Some e \<or>
         (flt SaveMessage = None \<and>
          saveMessageToDatabase now (store g) (r_chatId md) (sock_userId socket) c
            (case r_messageType md of None \<Rightarrow> ''text'' | Some t \<Rightarrow> t) = Inl e)"
  shows "send_message flt now socket md g =
           (g\<lparr>limiter := rl\<rparr>, [sendFailed (g\<lparr>limiter := rl\<rparr>) socket e])"
  using assms by (auto simp: send_message_def Let_def)

lemma send_success:
  assumes "r_content md = Some c" and "trim c \<noteq> []" and "length c \<le> 1000"
    and "checkMessageRateLimit flt now (sock_userId socket) (limiter g) = (True, rl)"
    and "flt ValidateAccess = None"
    and "validateChatAccess (store g) (r_chatId md) (sock_userId socket)"
    and "flt SaveMessage = None"
    and "saveMessageToDatabase now (store g) (r_chatId md) (sock_userId socket) c
            (case r_messageType md of None \<Rightarrow> ''text'' | Some t \<Rightarrow> t) = Inr (saved, d')"
  shows "send_message flt now socket md g =
           (g\<lparr>limiter := rl, store := d'\<rparr>,
            [(rooms g (r_chatId md),
              NewMessage \<lparr>m_id = Some (sm_id saved), m_tempId = None, m_chatId = r_chatId md,
                 m_content = sm_content saved, m_messageType = Some (sm_messageType saved),
                 m_sender = sender_of socket, m_timestamp = sm_timestamp saved,
                 m_isRead = Some (sm_isRead saved), m_status = None\<rparr>),
             ({sock_id socket},
              MessageSent \<lparr>c_success = True, c_messageId = sm_id saved, c_tempId = None,
                 c_timestamp = sm_timestamp saved\<rparr>)])"
  using assms by (auto simp: send_message_def Let_def io_to_def socket_emit_def)

lemma send_broadcast_after_save:
  assumes "\<exists>dl \<in> set (snd (send_message flt now socket md g)). isNewMessage (snd dl)"
  shows "\<exists>c saved. r_content md = Some c \<and> flt SaveMessage = None \<and>
           saveMessageToDatabase now (store g) (r_chatId md) (sock_userId socket) c
             (case r_messageType md of None \<Rightarrow> ''text'' | Some t \<Rightarrow> t) =
               Inr (saved, store (fst (send_message flt now socket md g)))"
  using assms
  by (auto simp: send_message_def Let_def socket_emit_def sendFailed_def io_to_def
      split: option.splits if_splits prod.splits sum.splits)

lemma send_outcome:
  "(\<exists>reason details.
      snd (send_message flt now socket md g) = [({sock_id socket}, ErrorEvent reason details)] \<and>
      (fst (send_message flt now socket md g) = g \<or>
       fst (send_message flt now socket md g) =
         g\<lparr>limiter := snd (checkMessageRateLimit flt now (sock_userId socket) (limiter g))\<rparr>) \<and>
      reason \<in> sendReasons) \<or>
   (\<exists>c rl saved d'. r_content md = Some c \<and> trim c \<noteq> [] \<and> length c \<le> 1000 \<and>
      checkMessageRateLimit flt now (sock_userId socket) (limiter g) = (True, rl) \<and>
      flt ValidateAccess = None \<and>
      validateChatAccess (store g) (r_chatId md) (sock_userId socket) \<and>
      flt SaveMessage = None \<and>
      saveMessageToDatabase now (store g) (r_chatId md) (sock_userId socket) c
        (case r_messageType md of None \<Rightarrow> ''text'' | Some t \<Rightarrow> t) = Inr (saved, d'))"
proof (cases "r_content md")
  case None
  then show ?thesis
    using send_empty[of md flt now socket g] by (simp add: socket_emit_def sendReasons_def)
next
  case (Some c)
  show ?thesis
  proof (cases "trim c = []")
    case True
    then show ?thesis
      using Some send_empty[of md flt now socket g] by (simp add: socket_emit_def sendReasons_def)
  next
    case ne: False
    show ?thesis
    proof (cases "length c > 1000")
      case True
      then show ?thesis
        using Some ne send_too_long[of md c flt now socket g] by (simp add: socket_emit_def sendReasons_def)
    next
      case False
      then have le: "length c \<le> 1000" by simp
      obtain allowed rl where
        chk: "checkMessageRateLimit flt now (sock_userId socket) (limiter g) = (allowed, rl)"
        by (cases "checkMessageRateLimit flt now (sock_userId socket) (limiter g)")
      show ?thesis
      proof (cases allowed)
        case False
        then show ?thesis
          using send_rate_limited[OF Some ne le, of flt now socket g rl] chk
          by (simp add: socket_emit_def sendReasons_def)
      next
        case True
        have ok: "checkMessageRateLimit flt now (sock_userId socket) (limiter g) = (True, rl)"
          using chk True by simp
        show ?thesis
        proof (cases "flt ValidateAccess")
          case (Some e)
          then show ?thesis
            using send_access_fault[OF \<open>r_content md = Some c\<close> ne le ok Some] ok
            by (simp add: socket_emit_def sendFailed_def sendReasons_def)
        next
          case None
          show ?thesis
          proof (cases "validateChatAccess (store g) (r_chatId md) (sock_userId socket)")
            case False
            then show ?thesis
              using send_access_denied[OF Some ne le ok None] ok
              by (simp add: socket_emit_def sendReasons_def)
          next
            case acc: True
            show ?thesis
            proof (cases "flt SaveMessage")
              case (Some e)
              then show ?thesis
                using send_save_fault[OF \<open>r_content md = Some c\<close> ne le ok None acc, of e] ok
                by (simp add: socket_emit_def sendFailed_def sendReasons_def)
            next
              case nf: None
              show ?thesis
              proof (cases "saveMessageToDatabase now (store g) (r_chatId md)
                       (sock_userId socket) c
                       (case r_messageType md of None \<Rightarrow> ''text'' | Some t \<Rightarrow> t)")
                case (Inl e)
                then show ?thesis
                  using send_save_fault[OF Some ne le ok None acc, of e] nf ok
                  by (simp add: socket_emit_def sendFailed_def sendReasons_def)
              next
                case (Inr r)
                then show ?thesis
                  using Some ne le ok None acc nf by (cases r) auto
              qed
            qed
          qed
        qed
      qed
    qed
  qed
qed

text \<open>
  Claim C3. A send-message event fails when its content is missing or empty after
  trimming, or longer than 1000, or the limiter denies the sender, or the sender is not a
  member of the room, or a store call rejects. In each of these cases the only delivery is
  one error event with one of the five reasons of the handler, addressed to the sending
  socket alone; the store and the rooms are unchanged and no \<open>new_message\<close> is emitted.
  For every input, a \<open>new_message\<close> in the output implies that the store write returned
  the saved message and that the gateway holds the store it returned.
\<close>

theorem failed_send_rejected:
  "((\<forall>c. r_content md = Some c \<longrightarrow> trim c = []) \<or>
    (\<exists>c. r_content md = Some c \<and> length c > 1000) \<or>
    \<not> fst (checkMessageRateLimit flt now (sock_userId socket) (limiter g)) \<or>
    \<not> validateChatAccess (store g) (r_chatId md) (sock_userId socket) \<or>
    flt ValidateAccess \<noteq> None \<or> flt SaveMessage \<noteq> None \<or>
    (\<exists>c e. r_content md = Some c \<and>
       saveMessageToDatabase now (store g) (r_chatId md) (sock_userId socket) c
         (case r_messageType md of None \<Rightarrow> ''text'' | Some t \<Rightarrow> t) = Inl e)
    \<longrightarrow>
      (\<exists>reason details.
          snd (send_message flt now socket md g) = [({sock_id socket}, ErrorEvent reason details)] \<and>
          reason \<in> sendReasons) \<and>
      store (fst (send_message flt now socket md g)) = store g \<and>
      rooms (fst (send_message flt now socket md g)) = rooms g \<and>
      (\<forall>dl \<in> set (snd (send_message flt now socket md g)). \<not> isNewMessage (snd dl))) \<and>
   ((\<exists>dl \<in> set (snd (send_message flt now socket md g)). isNewMessage (snd dl)) \<longrightarrow>
      (\<exists>c saved. r_content md = Some c \<and> flt SaveMessage = None \<and>
         saveMessageToDatabase now (store g) (r_chatId md) (sock_userId socket) c
           (case r_messageType md of None \<Rightarrow> ''text'' | Some t \<Rightarrow> t) =
             Inr (saved, store (fst (send_message flt now socket md g)))))"
proof (intro conjI impI)
  assume fails: "(\<forall>c. r_content md = Some c \<longrightarrow> trim c = []) \<or>
    (\<exists>c. r_content md = Some c \<and> length c > 1000) \<or>
    \<not> fst (checkMessageRateLimit flt now (sock_userId socket) (limiter g)) \<or>
    \<not> validateChatAccess (store g) (r_chatId md) (sock_userId socket) \<or>
    flt ValidateAccess \<noteq> None \<or> flt SaveMessage \<noteq> None \<or>
    (\<exists>c e. r_content md = Some c \<and>
       saveMessageToDatabase now (store g) (r_chatId md) (sock_userId socket) c
         (case r_messageType md of None \<Rightarrow> ''text'' | Some t \<Rightarrow> t) = Inl e)"
  let ?R = "send_message flt now socket md g"
  have no_success: "\<not> (\<exists>c rl saved d'. r_content md = Some c \<and> trim c \<noteq> [] \<and> length c \<le> 1000 \<and>
      checkMessageRateLimit flt now (sock_userId socket) (limiter g) = (True, rl) \<and>
      flt ValidateAccess = None \<and>
      validateChatAccess (store g) (r_chatId md) (sock_userId socket) \<and>
      flt SaveMessage = None \<and>
      saveMessageToDatabase now (store g) (r_chatId md) (sock_userId socket) c
        (case r_messageType md of None \<Rightarrow> ''text'' | Some t \<Rightarrow> t) = Inr (saved, d'))"
  proof
    assume "\<exists>c rl saved d'. r_content md = Some c \<and> trim c \<noteq> [] \<and> length c \<le> 1000 \<and>
      checkMessageRateLimit flt now (sock_userId socket) (limiter g) = (True, rl) \<and>
      flt ValidateAccess = None \<and>
      validateChatAccess (store g) (r_chatId md) (sock_userId socket) \<and>
      flt SaveMessage = None \<and>
      saveMessageToDatabase now (store g) (r_chatId md) (sock_userId socket) c
        (case r_messageType md of None \<Rightarrow> ''text'' | Some t \<Rightarrow> t) = Inr (saved, d')"
    then obtain c rl saved d' where s: "r_content md = Some c" "trim c \<noteq> []" "length c \<le> 1000"
      "checkMessageRateLimit flt now (sock_userId socket) (limiter g) = (True, rl)"
      "flt ValidateAccess = None"
      "validateChatAccess (store g) (r_chatId md) (sock_userId socket)"
      "flt SaveMessage = None"
      "saveMessageToDatabase now (store g) (r_chatId md) (sock_userId socket) c
        (case r_messageType md of None \<Rightarrow> ''text'' | Some t \<Rightarrow> t) = Inr (saved, d')"
      by blast
    from fails show False
    proof (elim disjE)
      assume "\<forall>c. r_content md = Some c \<longrightarrow> trim c = []"
      with s(1,2) show False by simp
    next
      assume "\<exists>c. r_content md = Some c \<and> length c > 1000"
      with s(1,3) show False by auto
    next
      assume "\<not> fst (checkMessageRateLimit flt now (sock_userId socket) (limiter g))"
      with s(4) show False by simp
    next
      assume "\<not> validateChatAccess (store g) (r_chatId md) (sock_userId socket)"
      with s(6) show False by simp
    next
      assume "flt ValidateAccess \<noteq> None"
      with s(5) show False by simp
    next
      assume "flt SaveMessage \<noteq> None"
      with s(7) show False by simp
    next
      assume "\<exists>c e. r_content md = Some c \<and>
         saveMessageToDatabase now (store g) (r_chatId md) (sock_userId socket) c
           (case r_messageType md of None \<Rightarrow> ''text'' | Some t \<Rightarrow> t) = Inl e"
      with s(1,8) show False by auto
    qed
  qed
  have "(\<exists>reason details.
      snd ?R = [({sock_id socket}, ErrorEvent reason details)] \<and>
      (fst ?R = g \<or>
       fst ?R = g\<lparr>limiter := snd (checkMessageRateLimit flt now (sock_userId socket) (limiter g))\<rparr>) \<and>
      reason \<in> sendReasons) \<or>
   (\<exists>c rl saved d'. r_content md = Some c \<and> trim c \<noteq> [] \<and> length c \<le> 1000 \<and>
      checkMessageRateLimit flt now (sock_userId socket) (limiter g) = (True, rl) \<and>
      flt ValidateAccess = None \<and>
      validateChatAccess (store g) (r_chatId md) (sock_userId socket) \<and>
      flt SaveMessage = None \<and>
      saveMessageToDatabase now (store g) (r_chatId md) (sock_userId socket) c
        (case r_messageType md of None \<Rightarrow> ''text'' | Some t \<Rightarrow> t) = Inr (saved, d'))"
    by (rule send_outcome)
  then have "\<exists>reason details.
      snd ?R = [({sock_id socket}, ErrorEvent reason details)] \<and>
      (fst ?R = g \<or>
       fst ?R = g\<lparr>limiter := snd (checkMessageRateLimit flt now (sock_userId socket) (limiter g))\<rparr>) \<and>
      reason \<in> sendReasons"
  proof
    assume "\<exists>reason details.
      snd ?R = [({sock_id socket}, ErrorEvent reason details)] \<and>
      (fst ?R = g \<or>
       fst ?R = g\<lparr>limiter := snd (checkMessageRateLimit flt now (sock_userId socket) (limiter g))\<rparr>) \<and>
      reason \<in> sendReasons"
    then show ?thesis .
  next
    assume "\<exists>c rl saved d'. r_content md = Some c \<and> trim c \<noteq> [] \<and> length c \<le> 1000 \<and>
      checkMessageRateLimit flt now (sock_userId socket) (limiter g) = (True, rl) \<and>
      flt ValidateAccess = None \<and>
      validateChatAccess (store g) (r_chatId md) (sock_userId socket) \<and>
      flt SaveMessage = None \<and>
      saveMessageToDatabase now (store g) (r_chatId md) (sock_userId socket) c
        (case r_messageType md of None \<Rightarrow> ''text'' | Some t \<Rightarrow> t) = Inr (saved, d')"
    with no_success show ?thesis by (rule notE)
  qed
  then obtain reason details where
    out: "snd ?R = [({sock_id socket}, ErrorEvent reason details)]"
    and st: "fst ?R = g \<or>
       fst ?R = g\<lparr>limiter := snd (checkMessageRateLimit flt now (sock_userId socket) (limiter g))\<rparr>"
    and reason: "reason \<in> sendReasons"
    by (elim exE conjE)
  show "\<exists>reason details.
          snd ?R = [({sock_id socket}, ErrorEvent reason details)] \<and>
          reason \<in> sendReasons"
    using out reason by blast
  show "store (fst ?R) = store g" using st by (elim disjE) simp_all
  show "rooms (fst ?R) = rooms g" using st by (elim disjE) simp_all
  show "\<forall>dl \<in> set (snd ?R). \<not> isNewMessage (snd dl)" by (simp add: out)
next
  assume "\<exists>dl \<in> set (snd (send_message flt now socket md g)). isNewMessage (snd dl)"
  then show "\<exists>c saved. r_content md = Some c \<and> flt SaveMessage = None \<and>
         saveMessageToDatabase now (store g) (r_chatId md) (sock_userId socket) c
           (case r_messageType md of None \<Rightarrow> ''text'' | Some t \<Rightarrow> t) =
             Inr (saved, store (fst (send_message flt now socket md g)))"
    by (rule send_broadcast_after_save)
qed

lemma hello_valid: "trim hello \<noteq> []" "length hello \<le> 1000"
  by (simp_all add: trim_hello) (simp_all add: hello_def)

lemma limiter_gw1:
  "checkMessageRateLimit noFault 5000 uid (limiter gw1) =
     (True, \<lparr>rl_limit = 2, rl_window = 3600000, rl_sent = (\<lambda>u. [])(uid := [5000])\<rparr>)"
  by (simp add: checkMessageRateLimit_def noFault_def gw1_fields)

lemma saveChat_AB:
  "saveChat dbAB (markAsRead chatAB ''a1'' None) = dbAB\<lparr>chats := [chatAB_read]\<rparr>"
  by (simp add: saveChat_def markAsRead_def chatAB_def dbAB_def chatAB_read_def)

lemma gwA_fields:
  "rooms gwA roomAB = {''sA''}"
  "store gwA = dbAB\<lparr>chats := [chatAB_read]\<rparr>"
  "limiter gwA = limiter gw1"
  "activeUsers gwA = activeUsers gw1"
  "development gwA = False"
  by (simp_all add: gwA_def join_chat_def noFault_def gw1_fields gw1_rooms access_AB sockA_def
      Let_def saveChat_AB socket_to_def socket_emit_def)

theorem failed_send_rejected_witness:
  "\<not> validateChatAccess (store gw1) (r_chatId reqC) (sock_userId sockC) \<and>
   snd (send_message noFault 5000 sockC reqC gw1) =
     [({''sC''}, ErrorEvent ''Chat not found or access denied'' None)] \<and>
   store (fst (send_message noFault 5000 sockC reqC gw1)) = dbAB \<and>
   rooms (fst (send_message noFault 5000 sockC reqC gw1)) = rooms gw1"
proof -
  have h: "\<not> validateChatAccess (store gw1) (r_chatId reqC) (sock_userId sockC)"
    by (simp add: gw1_fields reqC_def sockC_def access_AB)
  have out: "snd (send_message noFault 5000 sockC reqC gw1) =
     [({''sC''}, ErrorEvent ''Chat not found or access denied'' None)]"
    using send_access_denied[of reqC hello noFault 5000 sockC gw1, OF _ hello_valid limiter_gw1 _ h]
    by (simp add: reqC_def noFault_def socket_emit_def sockC_def)
  from failed_send_rejected[of reqC noFault 5000 sockC gw1] h out
  show ?thesis by (simp add: gw1_fields)
qed

lemma access_AB_read:
  "validateChatAccess (dbAB\<lparr>chats := [chatAB_read]\<rparr>) roomAB ''a1''"
  "findChat (dbAB\<lparr>chats := [chatAB_read]\<rparr>) roomAB = Some chatAB_read"
  by (simp_all add: validateChatAccess_def findChat_def chatAB_read_def chatAB_def)

lemma save_AB:
  "saveMessageToDatabase 5000 (dbAB\<lparr>chats := [chatAB_read]\<rparr>) roomAB ''a1'' hello ''text'' =
     Inr (\<lparr>sm_id = 1, sm_sender = ''a1'', sm_content = hello, sm_messageType = ''text'',
            sm_timestamp = 5000, sm_isRead = False\<rparr>,
          (saveChat (dbAB\<lparr>chats := [chatAB_read]\<rparr>)
             (chatAB_read\<lparr>ch_messages := ch_messages chatAB_read @
                 [\<lparr>sm_id = 1, sm_sender = ''a1'', sm_content = hello, sm_messageType = ''text'',
                   sm_timestamp = 5000, sm_isRead = False\<rparr>],
               ch_lastMessage := Some \<lparr>lm_sender = ''a1'', lm_content = hello,
                 lm_timestamp = 5000\<rparr>\<rparr>))\<lparr>nextId := 2\<rparr>)"
  by (simp add: saveMessageToDatabase_def access_AB_read Let_def) (simp add: dbAB_def)

lemma toString_7: "toString 7 = ''7''"
  by code_simp

lemma sentA_value:
  "sentA = (\<lparr>messages = [optimistic 7 roomAB (sender_of sockA) hello], newMessage = [],
             isSending = True\<rparr>, Some reqA)"
  by (simp add: sentA_def sendMessage_def trim_hello reqA_def toString_7)
     (simp add: hello_def)

text \<open>
  Claim C1, evaluated. Alice has joined her room and sends \<open>Hello\<close> with the correlation
  id \<open>7\<close> that her page generated. The store assigns the id \<open>1\<close>. Her socket receives
  the broadcast and a \<open>message_sent\<close> that carries the persistent id and the timestamp
  but no correlation id; her page, fed these two events, then shows two entries for the
  one send: the optimistic one, still \<open>sending\<close>, and the broadcast copy.
\<close>

theorem message_sent_lacks_tempId:
  "snd sentA = Some reqA \<and> r_tempId reqA = Some ''7'' \<and>
   received ''sA'' (snd (send_message noFault 5000 sockA reqA gwA)) =
     [NewMessage echoA,
      MessageSent \<lparr>c_success = True, c_messageId = 1, c_tempId = None, c_timestamp = 5000\<rparr>] \<and>
   map m_status
     (messages (foldl (\<lambda>p ev. deliver roomAB ev p) (fst sentA)
        (received ''sA'' (snd (send_message noFault 5000 sockA reqA gwA))))) =
     [Some ''sending'', Some ''received'']"
proof -
  have lim: "checkMessageRateLimit noFault 5000 (sock_userId sockA) (limiter gwA) =
     (True, \<lparr>rl_limit = 2, rl_window = 3600000, rl_sent = (\<lambda>u. [])(sock_userId sockA := [5000])\<rparr>)"
    by (simp add: gwA_fields limiter_gw1)
  have out: "snd (send_message noFault 5000 sockA reqA gwA) =
     [({''sA''}, NewMessage echoA),
      ({''sA''}, MessageSent \<lparr>c_success = True, c_messageId = 1, c_tempId = None,
                               c_timestamp = 5000\<rparr>)]"
    using send_success[of reqA hello noFault 5000 sockA gwA, OF _ hello_valid lim]
    by (simp add: reqA_def noFault_def gwA_fields access_AB_read save_AB sockA_def echoA_def)
  have rec: "received ''sA'' (snd (send_message noFault 5000 sockA reqA gwA)) =
     [NewMessage echoA,
      MessageSent \<lparr>c_success = True, c_messageId = 1, c_tempId = None, c_timestamp = 5000\<rparr>]"
    by (simp add: out received_def)
  have page: "map m_status
     (messages (foldl (\<lambda>p ev. deliver roomAB ev p) (fst sentA)
        [NewMessage echoA,
         MessageSent \<lparr>c_success = True, c_messageId = 1, c_tempId = None, c_timestamp = 5000\<rparr>])) =
     [Some ''sending'', Some ''received'']"
    by (simp add: sentA_value deliver_def on_new_message_def on_message_sent_def
        messageExists_def optimistic_def echoA_def Let_def)
  show ?thesis using rec page by (simp add: sentA_value reqA_def)
qed

section \<open>Access control\<close>

text \<open>
  Claim C2 fails for mark-read and for an invalid send. Carol is not a participant of the
  existing room of Alice and Bob: her mark-read changes nothing and delivers nothing, and
  her send with empty content is answered with the validation error, not with an access
  error.
\<close>

theorem access_denied_counterexample:
  "\<not> validateChatAccess (store gw1) roomAB (sock_userId sockC) \<and>
   findChat (store gw1) roomAB = Some chatAB \<and>
   mark_messages_read noFault sockC roomAB None gw1 = (gw1, []) \<and>
   send_message noFault 5000 sockC (reqC\<lparr>r_content := Some []\<rparr>) gw1 =
     (gw1, [({''sC''}, ErrorEvent ''Message content cannot be empty'' None)])"
  by (simp add: gw1_fields access_AB sockC_def mark_messages_read_def noFault_def
      send_empty socket_emit_def)

text \<open>
  Claim C2, amended. For a user outside the participant set of a room, with the access
  lookup itself working: join-room changes nothing and delivers the error
  \<open>Access denied to chat room\<close> to that socket alone; a send-message whose content passes
  validation and which the limiter allows delivers the error
  \<open>Chat not found or access denied\<close> to that socket alone, with store and rooms
  unchanged; mark-read is ignored silently, with no delivery and no change.
\<close>

theorem non_member_rejected:
  assumes "\<not> validateChatAccess (store g) chatId (sock_userId socket)"
    and "flt ValidateAccess = None"
  shows "join_chat flt socket chatId g =
           (g, [({sock_id socket}, ErrorEvent ''Access denied to chat room'' None)]) \<and>
         (r_chatId md = chatId \<and> r_content md = Some c \<and> trim c \<noteq> [] \<and> length c \<le> 1000 \<and>
          fst (checkMessageRateLimit flt now (sock_userId socket) (limiter g)) \<longrightarrow>
            snd (send_message flt now socket md g) =
              [({sock_id socket}, ErrorEvent ''Chat not found or access denied'' None)] \<and>
            store (fst (send_message flt now socket md g)) = store g \<and>
            rooms (fst (send_message flt now socket md g)) = rooms g \<and>
            activeChatRooms (fst (send_message flt now socket md g)) = activeChatRooms g) \<and>
         mark_messages_read flt socket chatId messageIds g = (g, [])"
proof (intro conjI impI)
  show "join_chat flt socket chatId g =
           (g, [({sock_id socket}, ErrorEvent ''Access denied to chat room'' None)])"
    using assms by (simp add: join_chat_def socket_emit_def)
  show "mark_messages_read flt socket chatId messageIds g = (g, [])"
    using assms by (simp add: mark_messages_read_def)
next
  assume h: "r_chatId md = chatId \<and> r_content md = Some c \<and> trim c \<noteq> [] \<and> length c \<le> 1000 \<and>
          fst (checkMessageRateLimit flt now (sock_userId socket) (limiter g))"
  obtain rl where chk: "checkMessageRateLimit flt now (sock_userId socket) (limiter g) = (True, rl)"
    using h by (cases "checkMessageRateLimit flt now (sock_userId socket) (limiter g)") auto
  have eq: "send_message flt now socket md g =
           (g\<lparr>limiter := rl\<rparr>,
            [socket_emit socket (ErrorEvent ''Chat not found or access denied'' None)])"
    using send_access_denied[of md c flt now socket g rl] h chk assms by simp
  show "snd (send_message flt now socket md g) =
              [({sock_id socket}, ErrorEvent ''Chat not found or access denied'' None)]"
    by (simp add: eq socket_emit_def)
  show "store (fst (send_message flt now socket md g)) = store g" by (simp add: eq)
  show "rooms (fst (send_message flt now socket md g)) = rooms g" by (simp add: eq)
  show "activeChatRooms (fst (send_message flt now socket md g)) = activeChatRooms g"
    by (simp add: eq)
qed

theorem non_member_rejected_witness:
  "\<not> validateChatAccess (store gw1) roomAB (sock_userId sockC) \<and>
   noFault ValidateAccess = None \<and>
   fst (checkMessageRateLimit noFault 5000 (sock_userId sockC) (limiter gw1)) \<and>
   join_chat noFault sockC roomAB gw1 =
     (gw1, [({''sC''}, ErrorEvent ''Access denied to chat room'' None)]) \<and>
   snd (send_message noFault 5000 sockC reqC gw1) =
     [({''sC''}, ErrorEvent ''Chat not found or access denied'' None)] \<and>
   store (fst (send_message noFault 5000 sockC reqC gw1)) = dbAB \<and>
   mark_messages_read noFault sockC roomAB (Some [0]) gw1 = (gw1, [])"
proof -
  have h1: "\<not> validateChatAccess (store gw1) roomAB (sock_userId sockC)"
    by (simp add: gw1_fields sockC_def access_AB)
  have h2: "noFault ValidateAccess = None" by (simp add: noFault_def)
  have h3: "fst (checkMessageRateLimit noFault 5000 (sock_userId sockC) (limiter gw1))"
    by (simp add: limiter_gw1)
  from non_member_rejected[where g=gw1 and chatId=roomAB and socket=sockC and flt=noFault
      and md=reqC and c=hello and now=5000 and messageIds="Some [0]", OF h1 h2]
    h1 h2 h3 hello_valid
  show ?thesis by (simp add: reqC_def sockC_def gw1_fields)
qed

section \<open>Store lemmas\<close>

lemma find_replaceFirst_same:
  assumes "P y"
  shows "find P (replaceFirst P y xs) = (case find P xs of None \<Rightarrow> None | Some x \<Rightarrow> Some y)"
  using assms by (induction xs) auto


lemma findChat_id: "findChat d k = Some c \<Longrightarrow> ch_chatId c = k"
  by (auto simp: findChat_def find_Some_iff)

lemma findChat_saveChat_same:
  assumes "findChat d k = Some c" and "ch_chatId c' = k"
  shows "findChat (saveChat d c') k = Some c'"
  using assms by (simp add: findChat_def saveChat_def find_replaceFirst_same)


lemma markAsRead_fields [simp]:
  "ch_chatId (markAsRead c uid ids) = ch_chatId c"
  "ch_participants (markAsRead c uid ids) = ch_participants c"
  by (simp_all add: markAsRead_def)

lemma markAsRead_all:
  "ch_messages (markAsRead c uid None) =
     map (\<lambda>m. if sm_sender m \<noteq> uid then m\<lparr>sm_isRead := True\<rparr> else m) (ch_messages c)"
  by (auto simp: markAsRead_def)

lemma access_chat:
  assumes "validateChatAccess d chatId uid"
  obtains chat where "findChat d chatId = Some chat" and "uid \<in> set (map p_user (ch_participants chat))"
  using assms by (auto simp: validateChatAccess_def split: option.splits)


lemma save_message_ok:
  assumes "findChat d chatId = Some chat"
  shows "saveMessageToDatabase now d chatId uid content messageType =
     Inr (\<lparr>sm_id = nextId d, sm_sender = uid, sm_content = content,
            sm_messageType = messageType, sm_timestamp = now, sm_isRead = False\<rparr>,
          (saveChat d (chat\<lparr>ch_messages := ch_messages chat @
               [\<lparr>sm_id = nextId d, sm_sender = uid, sm_content = content,
                 sm_messageType = messageType, sm_timestamp = now, sm_isRead = False\<rparr>],
             ch_lastMessage := Some \<lparr>lm_sender = uid, lm_content = content,
                                     lm_timestamp = now\<rparr>\<rparr>))\<lparr>nextId := Suc (nextId d)\<rparr>)"
  using assms by (simp add: saveMessageToDatabase_def Let_def)

lemma findChat_nextId [simp]: "findChat (d\<lparr>nextId := n\<rparr>) k = findChat d k"
  by (simp add: findChat_def)

section \<open>Joining a room\<close>


text \<open>
  Claim C8. For a member of the room, with the store calls of the handler succeeding,
  join-room puts the socket into the room's broadcast group, stores the room with every
  message that was sent by someone else marked read, delivers \<open>messages_read\<close> with the
  room and the reader's identity to the other sockets of the group, and delivers
  \<open>chat_joined\<close> with the room and success to the joining socket.
\<close>

theorem join_room_effects:
  assumes "validateChatAccess (store g) chatId (sock_userId socket)"
    and "flt ValidateAccess = None" and "flt FindChat = None" and "flt SaveChat = None"
  shows "\<exists>chat. findChat (store g) chatId = Some chat \<and>
           rooms (fst (join_chat flt socket chatId g)) =
             (rooms g)(chatId := insert (sock_id socket) (rooms g chatId)) \<and>
           store (fst (join_chat flt socket chatId g)) =
             saveChat (store g) (markAsRead chat (sock_userId socket) None) \<and>
           findChat (store (fst (join_chat flt socket chatId g))) chatId =
             Some (markAsRead chat (sock_userId socket) None) \<and>
           ch_messages (markAsRead chat (sock_userId socket) None) =
             map (\<lambda>m. if sm_sender m \<noteq> sock_userId socket then m\<lparr>sm_isRead := True\<rparr> else m)
               (ch_messages chat) \<and>
           snd (join_chat flt socket chatId g) =
             [(rooms g chatId - {sock_id socket},
               MessagesRead chatId (sock_userId socket) None),
              ({sock_id socket}, ChatJoined chatId True)]"
proof -
  from assms(1) obtain chat where c: "findChat (store g) chatId = Some chat"
    by (rule access_chat)
  have k: "ch_chatId (markAsRead chat (sock_userId socket) None) = chatId"
    using findChat_id[OF c] by simp
  have "findChat (store g) chatId = Some chat \<and>
           rooms (fst (join_chat flt socket chatId g)) =
             (rooms g)(chatId := insert (sock_id socket) (rooms g chatId)) \<and>
           store (fst (join_chat flt socket chatId g)) =
             saveChat (store g) (markAsRead chat (sock_userId socket) None) \<and>
           findChat (store (fst (join_chat flt socket chatId g))) chatId =
             Some (markAsRead chat (sock_userId socket) None) \<and>
           ch_messages (markAsRead chat (sock_userId socket) None) =
             map (\<lambda>m. if sm_sender m \<noteq> sock_userId socket then m\<lparr>sm_isRead := True\<rparr> else m)
               (ch_messages chat) \<and>
           snd (join_chat flt socket chatId g) =
             [(rooms g chatId - {sock_id socket},
               MessagesRead chatId (sock_userId socket) None),
              ({sock_id socket}, ChatJoined chatId True)]"
    using assms c findChat_saveChat_same[OF c k] markAsRead_all[of chat "sock_userId socket"]
    by (simp add: join_chat_def Let_def socket_to_def socket_emit_def)
  then show ?thesis ..
qed

section \<open>Delivery of a sent message\<close>

lemma send_member_ok:
  assumes "r_content md = Some c" and "trim c \<noteq> []" and "length c \<le> 1000"
    and "fst (checkMessageRateLimit flt now (sock_userId socket) (limiter g))"
    and "flt ValidateAccess = None" and "flt SaveMessage = None"
    and "validateChatAccess (store g) (r_chatId md) (sock_userId socket)"
  shows "\<exists>chat. findChat (store g) (r_chatId md) = Some chat \<and>
     send_message flt now socket md g =
       (g\<lparr>limiter := snd (checkMessageRateLimit flt now (sock_userId socket) (limiter g)),
          store := (saveChat (store g) (chat\<lparr>ch_messages := ch_messages chat @
               [\<lparr>sm_id = nextId (store g), sm_sender = sock_userId socket, sm_content = c,
                 sm_messageType = (case r_messageType md of None \<Rightarrow> ''text'' | Some t \<Rightarrow> t),
                 sm_timestamp = now, sm_isRead = False\<rparr>],
             ch_lastMessage := Some \<lparr>lm_sender = sock_userId socket, lm_content = c,
                                     lm_timestamp = now\<rparr>\<rparr>))\<lparr>nextId := Suc (nextId (store g))\<rparr>\<rparr>,
        [(rooms g (r_chatId md),
          NewMessage \<lparr>m_id = Some (nextId (store g)), m_tempId = None, m_chatId = r_chatId md,
             m_content = c,
             m_messageType = Some (case r_messageType md of None \<Rightarrow> ''text'' | Some t \<Rightarrow> t),
             m_sender = sender_of socket, m_timestamp = now,
             m_isRead = Some False, m_status = None\<rparr>),
         ({sock_id socket},
          MessageSent \<lparr>c_success = True, c_messageId = nextId (store g), c_tempId = None,
             c_timestamp = now\<rparr>)])"
proof -
  from assms(7) obtain chat where c: "findChat (store g) (r_chatId md) = Some chat"
    by (rule access_chat)
  obtain rl where chk: "checkMessageRateLimit flt now (sock_userId socket) (limiter g) = (True, rl)"
    using assms(4) by (cases "checkMessageRateLimit flt now (sock_userId socket) (limiter g)") auto
  show ?thesis
    using send_success[where flt=flt and g=g and md=md and socket=socket and now=now and c=c,
        OF assms(1-3) chk assms(5,7,6) save_message_ok[OF c]] c chk
    by simp
qed


section \<open>Content validation\<close>

lemma send_valid_no_validation_error:
  assumes "r_content md = Some c" and "trim c \<noteq> []" and "length c \<le> 1000"
  shows "\<forall>dl \<in> set (snd (send_message flt now socket md g)).
           snd dl \<noteq> ErrorEvent ''Message content cannot be empty'' None \<and>
           snd dl \<noteq> ErrorEvent ''Message too long. Maximum 1000 characters.'' None"
  using assms
  by (auto simp: send_message_def Let_def socket_emit_def sendFailed_def io_to_def
      split: prod.splits option.splits sum.splits)

text \<open>
  Claim C10. Emptiness is decided on the trimmed content and the bound of 1000 on the raw
  content. Content that is empty after trimming is rejected as empty, whatever its length.
  Content that is not empty after trimming and longer than 1000 is rejected as too long,
  whatever the length of its trimmed form. Content of at most 1000 that is not empty after
  trimming gets neither of the two validation errors; when the send then succeeds, the
  message appended to the room and the broadcast both hold the content as it was
  received, untrimmed.
\<close>

theorem content_validation:
  assumes "r_content md = Some c"
  shows "(trim c = [] \<longrightarrow>
            send_message flt now socket md g =
              (g, [({sock_id socket}, ErrorEvent ''Message content cannot be empty'' None)])) \<and>
         (trim c \<noteq> [] \<and> length c > 1000 \<longrightarrow>
            send_message flt now socket md g =
              (g, [({sock_id socket},
                    ErrorEvent ''Message too long. Maximum 1000 characters.'' None)])) \<and>
         (trim c \<noteq> [] \<and> length c \<le> 1000 \<longrightarrow>
            (\<forall>dl \<in> set (snd (send_message flt now socket md g)).
               snd dl \<noteq> ErrorEvent ''Message content cannot be empty'' None \<and>
               snd dl \<noteq> ErrorEvent ''Message too long. Maximum 1000 characters.'' None)) \<and>
         (trim c \<noteq> [] \<and> length c \<le> 1000 \<and>
          fst (checkMessageRateLimit flt now (sock_userId socket) (limiter g)) \<and>
          flt ValidateAccess = None \<and> flt SaveMessage = None \<and>
          validateChatAccess (store g) (r_chatId md) (sock_userId socket) \<longrightarrow>
            (\<exists>chat. findChat (store g) (r_chatId md) = Some chat \<and>
               map sm_content
                 (case findChat (store (fst (send_message flt now socket md g))) (r_chatId md) of
                    None \<Rightarrow> [] | Some chat' \<Rightarrow> ch_messages chat') =
               map sm_content (ch_messages chat) @ [c]) \<and>
            (\<exists>m. filter isNewMessage (map snd (snd (send_message flt now socket md g))) =
                   [NewMessage m] \<and> m_content m = c))"
proof (intro conjI impI)
  assume "trim c = []"
  then show "send_message flt now socket md g =
              (g, [({sock_id socket}, ErrorEvent ''Message content cannot be empty'' None)])"
    using assms send_empty[of md flt now socket g] by (simp add: socket_emit_def)
next
  assume "trim c \<noteq> [] \<and> length c > 1000"
  then show "send_message flt now socket md g =
              (g, [({sock_id socket},
                    ErrorEvent ''Message too long. Maximum 1000 characters.'' None)])"
    using assms send_too_long[of md c flt now socket g] by (simp add: socket_emit_def)
next
  assume "trim c \<noteq> [] \<and> length c \<le> 1000"
  then show "\<forall>dl \<in> set (snd (send_message flt now socket md g)).
               snd dl \<noteq> ErrorEvent ''Message content cannot be empty'' None \<and>
               snd dl \<noteq> ErrorEvent ''Message too long. Maximum 1000 characters.'' None"
    using assms send_valid_no_validation_error[of md c flt now socket g] by simp
next
  assume h: "trim c \<noteq> [] \<and> length c \<le> 1000 \<and>
          fst (checkMessageRateLimit flt now (sock_userId socket) (limiter g)) \<and>
          flt ValidateAccess = None \<and> flt SaveMessage = None \<and>
          validateChatAccess (store g) (r_chatId md) (sock_userId socket)"
  have h': "trim c \<noteq> []" "length c \<le> 1000"
    "fst (checkMessageRateLimit flt now (sock_userId socket) (limiter g))"
    "flt ValidateAccess = None" "flt SaveMessage = None"
    "validateChatAccess (store g) (r_chatId md) (sock_userId socket)"
    using h by simp_all
  from send_member_ok[where flt=flt and g=g and md=md and socket=socket and now=now and c=c,
      OF assms h']
  obtain chat where c: "findChat (store g) (r_chatId md) = Some chat" and
    R: "send_message flt now socket md g =
       (g\<lparr>limiter := snd (checkMessageRateLimit flt now (sock_userId socket) (limiter g)),
          store := (saveChat (store g) (chat\<lparr>ch_messages := ch_messages chat @
               [\<lparr>sm_id = nextId (store g), sm_sender = sock_userId socket, sm_content = c,
                 sm_messageType = (case r_messageType md of None \<Rightarrow> ''text'' | Some t \<Rightarrow> t),
                 sm_timestamp = now, sm_isRead = False\<rparr>],
             ch_lastMessage := Some \<lparr>lm_sender = sock_userId socket, lm_content = c,
                                     lm_timestamp = now\<rparr>\<rparr>))\<lparr>nextId := Suc (nextId (store g))\<rparr>\<rparr>,
        [(rooms g (r_chatId md),
          NewMessage \<lparr>m_id = Some (nextId (store g)), m_tempId = None, m_chatId = r_chatId md,
             m_content = c,
             m_messageType = Some (case r_messageType md of None \<Rightarrow> ''text'' | Some t \<Rightarrow> t),
             m_sender = sender_of socket, m_timestamp = now,
             m_isRead = Some False, m_status = None\<rparr>),
         ({sock_id socket},
          MessageSent \<lparr>c_success = True, c_messageId = nextId (store g), c_tempId = None,
             c_timestamp = now\<rparr>)])"
    by blast
  have k: "ch_chatId chat = r_chatId md" using c by (rule findChat_id)
  show "\<exists>chat. findChat (store g) (r_chatId md) = Some chat \<and>
               map sm_content
                 (case findChat (store (fst (send_message flt now socket md g))) (r_chatId md) of
                    None \<Rightarrow> [] | Some chat' \<Rightarrow> ch_messages chat') =
               map sm_content (ch_messages chat) @ [c]"
    using c by (simp add: R findChat_saveChat_same[OF c] k)
  show "\<exists>m. filter isNewMessage (map snd (snd (send_message flt now socket md g))) =
                   [NewMessage m] \<and> m_content m = c"
    by (simp add: R)
qed

section \<open>Joining, delivery and validation on concrete inputs\<close>

lemma saveChat_AB_b2: "saveChat dbAB (markAsRead chatAB ''b2'' None) = dbAB"
  by (simp add: saveChat_def markAsRead_def chatAB_def dbAB_def)

lemma gwB_fields:
  "rooms gwB roomAB = {''sB''}"
  "store gwB = dbAB"
  "limiter gwB = limiter gw1"
  "activeChatRooms gwB = [roomAB \<mapsto> {''sB''}]"
  by (simp_all add: gwB_def join_chat_def noFault_def gw1_fields gw1_rooms access_AB sockB_def
      Let_def saveChat_AB_b2 socket_to_def socket_emit_def)


theorem join_room_effects_witness:
  "validateChatAccess (store gwB) roomAB (sock_userId sockA) \<and>
   rooms (fst (join_chat noFault sockA roomAB gwB)) roomAB = {''sA'', ''sB''} \<and>
   map sm_isRead (ch_messages (markAsRead chatAB ''a1'' None)) = [True] \<and>
   findChat (store (fst (join_chat noFault sockA roomAB gwB))) roomAB =
     Some (markAsRead chatAB ''a1'' None) \<and>
   snd (join_chat noFault sockA roomAB gwB) =
     [({''sB''}, MessagesRead roomAB ''a1'' None), ({''sA''}, ChatJoined roomAB True)]"
proof -
  have h1: "validateChatAccess (store gwB) roomAB (sock_userId sockA)"
    by (simp add: gwB_fields access_AB sockA_def)
  have h2: "noFault ValidateAccess = None" "noFault FindChat = None" "noFault SaveChat = None"
    by (simp_all add: noFault_def)
  have m: "map sm_isRead (ch_messages (markAsRead chatAB ''a1'' None)) = [True]"
    by (simp add: markAsRead_def chatAB_def)
  from join_room_effects[where flt=noFault and g=gwB and chatId=roomAB and socket=sockA,
      OF h1 h2] h1 m
  show ?thesis by (auto simp: gwB_fields access_AB sockA_def)
qed



lemma dropWhile_replicate_keep: "\<not> P a \<Longrightarrow> dropWhile P (replicate n a) = replicate n a"
  by (cases n) simp_all

lemma trim_padded: "trim (padded n) = replicate n 0x61"
  by (simp add: trim_def padded_def isWhiteSpace_def dropWhile_replicate_keep)

lemma length_padded: "length (padded n) = Suc n"
  by (simp add: padded_def)

lemma trim_padded_nonempty: "0 < n \<Longrightarrow> trim (padded n) \<noteq> []"
  by (simp add: trim_padded)

lemma trim_padded_differs: "trim (padded n) \<noteq> padded n"
proof
  assume "trim (padded n) = padded n"
  then have "length (trim (padded n)) = length (padded n)" by simp
  then show False by (simp add: trim_padded length_padded)
qed

lemma trim_spaces: "trim (replicate n 0x20) = []"
  by (simp add: trim_def isWhiteSpace_def dropWhile_eq_Nil_conv)

theorem content_validation_witness:
  "send_message noFault 5000 sockA (reqA\<lparr>r_content := Some (replicate 3 0x20)\<rparr>) gwA =
     (gwA, [({''sA''}, ErrorEvent ''Message content cannot be empty'' None)]) \<and>
   length (padded 1000) = 1001 \<and> length (trim (padded 1000)) = 1000 \<and>
   send_message noFault 5000 sockA (reqPadded 1000) gwA =
     (gwA, [({''sA''}, ErrorEvent ''Message too long. Maximum 1000 characters.'' None)]) \<and>
   length (padded 999) = 1000 \<and> trim (padded 999) \<noteq> padded 999 \<and>
   map sm_content
     (case findChat (store (fst (send_message noFault 5000 sockA (reqPadded 999) gwA))) roomAB of
        None \<Rightarrow> [] | Some chat' \<Rightarrow> ch_messages chat') = [hello, padded 999]"
proof -
  have c1: "r_content (reqA\<lparr>r_content := Some (replicate 3 0x20)\<rparr>) = Some (replicate 3 0x20)"
    by simp
  have c2: "r_content (reqPadded 1000) = Some (padded 1000)" by (simp add: reqPadded_def)
  have c3: "r_content (reqPadded 999) = Some (padded 999)" by (simp add: reqPadded_def)
  have l: "fst (checkMessageRateLimit noFault 5000 (sock_userId sockA) (limiter gwA))"
    by (simp add: gwA_fields limiter_gw1)
  have acc: "validateChatAccess (store gwA) (r_chatId (reqPadded 999)) (sock_userId sockA)"
    by (simp add: gwA_fields access_AB_read reqPadded_def sockA_def)
  have f: "noFault ValidateAccess = None" "noFault SaveMessage = None"
    by (simp_all add: noFault_def)
  have t999: "trim (padded 999) \<noteq> []" "length (padded 999) \<le> 1000"
    by (simp_all add: trim_padded_nonempty length_padded)
  have t1000: "trim (padded 1000) \<noteq> []" "length (padded 1000) > 1000"
    by (simp_all add: trim_padded_nonempty length_padded)
  have ne: "trim (padded 999) \<noteq> padded 999"
    by (rule trim_padded_differs)
  from content_validation[OF c1, of noFault 5000 sockA gwA] trim_spaces[of 3]
  have w1: "send_message noFault 5000 sockA (reqA\<lparr>r_content := Some (replicate 3 0x20)\<rparr>) gwA =
     (gwA, [({''sA''}, ErrorEvent ''Message content cannot be empty'' None)])"
    by (simp add: sockA_def)
  from content_validation[OF c2, of noFault 5000 sockA gwA] t1000
  have w2: "send_message noFault 5000 sockA (reqPadded 1000) gwA =
     (gwA, [({''sA''}, ErrorEvent ''Message too long. Maximum 1000 characters.'' None)])"
    by (simp add: sockA_def)
  have found: "findChat (store gwA) roomAB = Some chatAB_read"
    by (simp add: gwA_fields access_AB_read)
  have old: "map sm_content (ch_messages chatAB_read) = [hello]"
    by (simp add: chatAB_read_def)
  from content_validation[OF c3, of noFault 5000 sockA gwA] t999 l acc f
  obtain chat where "findChat (store gwA) roomAB = Some chat" and
    m: "map sm_content
     (case findChat (store (fst (send_message noFault 5000 sockA (reqPadded 999) gwA))) roomAB of
        None \<Rightarrow> [] | Some chat' \<Rightarrow> ch_messages chat') = map sm_content (ch_messages chat) @ [padded 999]"
    by (auto simp: reqPadded_def)
  with found have "chat = chatAB_read" by simp
  with m old have w3: "map sm_content
     (case findChat (store (fst (send_message noFault 5000 sockA (reqPadded 999) gwA))) roomAB of
        None \<Rightarrow> [] | Some chat' \<Rightarrow> ch_messages chat') = [hello, padded 999]"
    by simp
  show ?thesis using w1 w2 w3 ne by (simp add: trim_padded length_padded)
qed

section \<open>Rate limiting\<close>










lemma validateChatAccess_nextId [simp]:
  "validateChatAccess (d\<lparr>nextId := n\<rparr>) k u = validateChatAccess d k u"
  by (simp add: validateChatAccess_def)







section \<open>The message-request quota of the user model\<close>

lemma length_filter_none:
  "(\<And>x. x \<in> set xs \<Longrightarrow> \<not> Q x) \<Longrightarrow> length (filter Q xs) = 0"
  by (simp add: filter_empty_conv)

text \<open>
  The quota counts the requests to a lawyer whose id is given in the form in which ids
  are stored: two requests within the hour exhaust it, and it is free again an hour
  after them.
\<close>

lemma message_request_quota:
  assumes "castObjectId L = Some L"
    and "\<forall>r \<in> set (u_messageRequests u). mr_toUserId r = L \<longrightarrow> mr_timestamp r \<le> oneHourAgo t1"
    and "t1 \<le> t2" and "t2 \<le> now" and "oneHourAgo now < t1"
    and "addMessageRequest t1 u L = Some u1" and "addMessageRequest t2 u1 L = Some u2"
  shows "canSendMessageRequest t1 u L \<and>
         canSendMessageRequest t2 u1 L \<and>
         \<not> canSendMessageRequest now u2 L \<and>
         (t2 + 60 * 60 * 1000 \<le> later \<longrightarrow> canSendMessageRequest later u2 L)"
proof -
  let ?old = "u_messageRequests u"
  have u1: "u_messageRequests u1 =
      filter (\<lambda>req. mr_timestamp req > oneHourAgo t1)
        (?old @ [\<lparr>mr_toUserId = L, mr_timestamp = t1\<rparr>])"
    using assms(1,6) by (auto simp: addMessageRequest_def)
  have u2: "u_messageRequests u2 =
      filter (\<lambda>req. mr_timestamp req > oneHourAgo t2)
        (u_messageRequests u1 @ [\<lparr>mr_toUserId = L, mr_timestamp = t2\<rparr>])"
    using assms(1,7) by (auto simp: addMessageRequest_def)
  have b: "oneHourAgo t1 \<le> oneHourAgo t2" "oneHourAgo t2 \<le> oneHourAgo now"
    "oneHourAgo now < t2" "oneHourAgo t2 < t1" "oneHourAgo t1 < t1" "oneHourAgo t2 < t2"
    "oneHourAgo now < t1"
    using assms(3-5) by (simp_all add: oneHourAgo_def)
  have c1: "canSendMessageRequest t1 u L"
  proof -
    have "filter (\<lambda>req. mr_toUserId req = L \<and> mr_timestamp req > oneHourAgo t1) ?old = []"
      using assms(2) by (fastforce simp: filter_empty_conv)
    then show ?thesis by (simp add: canSendMessageRequest_def)
  qed
  have c2: "canSendMessageRequest t2 u1 L"
    using b by (simp add: canSendMessageRequest_def u1)
      (use assms(2) b in \<open>fastforce simp: filter_empty_conv\<close>)
  have c3: "\<not> canSendMessageRequest now u2 L"
    using b by (simp add: canSendMessageRequest_def u1 u2)
  have c4: "t2 + 60 * 60 * 1000 \<le> later \<longrightarrow> canSendMessageRequest later u2 L"
  proof
    assume "t2 + 60 * 60 * 1000 \<le> later"
    then have l: "t2 \<le> oneHourAgo later" "t1 \<le> oneHourAgo later" "oneHourAgo t1 \<le> oneHourAgo later"
      using assms(3) by (simp_all add: oneHourAgo_def)
    show "canSendMessageRequest later u2 L"
      using b l assms(2)
      apply (simp add: canSendMessageRequest_def u1 u2)
      apply (subst length_filter_none)
       apply fastforce
      apply simp
      done
  qed
  show ?thesis using c1 c2 c3 c4 by blast
qed

text \<open>
  A request stored for a lawyer is never counted against a parameter that spells the
  lawyer's id in another way, since the stored form is compared with the parameter as
  it was received.
\<close>

lemma quota_misses_other_spelling:
  assumes "castObjectId L = Some oid" and "L \<noteq> oid"
    and "\<forall>r \<in> set (u_messageRequests u). mr_toUserId r \<noteq> L"
    and "addMessageRequest t u L = Some u'"
  shows "\<forall>r \<in> set (u_messageRequests u'). mr_toUserId r \<noteq> L"
    and "canSendMessageRequest now u' L"
proof -
  show *: "\<forall>r \<in> set (u_messageRequests u'). mr_toUserId r \<noteq> L"
    using assms by (auto simp: addMessageRequest_def split: if_splits)
  then have "filter (\<lambda>req. mr_toUserId req = L \<and> mr_timestamp req > oneHourAgo now)
               (u_messageRequests u') = []"
    by (auto simp: filter_empty_conv)
  then show "canSendMessageRequest now u' L" by (simp add: canSendMessageRequest_def)
qed

lemma request_over_quota:
  assumes "flt FindLawyer = None" and "flt FindCitizen = None"
    and "castObjectId lawyerId = Some oid"
    and "find (\<lambda>u. u_id u = oid \<and> u_role u = ''lawyer'' \<and> u_isActive u \<and>
                 u_verificationStatus u = Some ''verified'') (users d) = Some lawyer"
    and "find (\<lambda>u. u_id u = s_id reqUser) (users d) = Some citizen"
    and "\<not> canSendMessageRequest now citizen lawyerId"
  shows "sendDirectMessageRequest flt now reqUser lawyerId message d =
           (d, \<lparr>res_status = 429, res_success = False,
                res_message = ''You can only send 2 message requests per hour to the same lawyer'',
                res_chatId = None\<rparr>, [])"
  using assms by (simp add: sendDirectMessageRequest_def)

lemma request_unspelled_id:
  assumes "castObjectId lawyerId = None"
  shows "sendDirectMessageRequest flt now reqUser lawyerId message d = (d, failedRequest, [])"
  using assms by (simp add: sendDirectMessageRequest_def)

end
